theory Spec2Isabelle
  imports Main "HOL-Library.AList"
begin

section \<open>JavaScript values used by the controller\<close>

text \<open>
  A thrown \<open>Error\<close> is a value: its class decides the HTTP status in the REST layer, its
  message is what callers see. Operations that can throw return \<open>error + 'a\<close> together
  with the state they leave behind.
\<close>

datatype error = Error string | ValidationError string

text \<open>
  An optional string in a condition: \<open>undefined\<close> and the empty string are both falsy.
  \<open>nonempty x\<close> is the string when \<open>x\<close> is truthy; \<open>or_default x d\<close> is \<open>x || d\<close>.
\<close>

definition nonempty :: "string option \<Rightarrow> string option" where
  "nonempty x = (case x of None \<Rightarrow> None | Some s \<Rightarrow> if s = [] then None else Some s)"

definition or_default :: "string option \<Rightarrow> string \<Rightarrow> string" where
  "or_default x d = (case nonempty x of None \<Rightarrow> d | Some s \<Rightarrow> s)"

subsection \<open>Numbers in template strings\<close>

text \<open>
  \<open>String(n)\<close> and \<open>`${n}`\<close> for a number that is a safe integer (of magnitude at most
  \<open>2^53 - 1\<close>): its decimal digits, with a minus sign when negative. Beyond that range
  a JavaScript number is no longer every integer, and from \<open>1e21\<close> on it prints in
  exponent notation: \<open>Int_toString\<close> is the rendering of safe integers only, and whatever
  is proved of a rendered number is proved of a safe integer.
\<close>

definition digit_char :: "nat \<Rightarrow> char" where
  "digit_char d = ''0123456789'' ! d"

fun Number_toString :: "nat \<Rightarrow> string" where
  "Number_toString n =
     (if n < 10 then [digit_char n]
      else Number_toString (n div 10) @ [digit_char (n mod 10)])"

declare Number_toString.simps [simp del]

definition Int_toString :: "int \<Rightarrow> string" where
  "Int_toString i = (if i < 0 then CHR ''-'' # Number_toString (nat (- i)) else Number_toString (nat i))"

definition digit_value :: "char \<Rightarrow> nat" where
  "digit_value c = of_char c - 48"

definition parseInt :: "string \<Rightarrow> nat" where
  "parseInt s = foldl (\<lambda>acc c. acc * 10 + digit_value c) 0 s"

subsection \<open>JSON.stringify and JSON.parse on protocol envelopes\<close>

text \<open>
  Every envelope the controller writes is a flat object whose values are strings or
  booleans. The fragment of JSON modelled here is exactly that: objects whose members are
  strings, booleans or \<open>null\<close>. A character is one byte, so a string is a sequence of code
  units below 256. \<open>JSON_parse\<close> accepts insignificant whitespace and every escape of the
  JSON grammar; it answers \<open>None\<close> (a \<open>SyntaxError\<close>) on malformed text, and also on text
  outside the fragment (numbers, arrays, nested objects, unicode escapes above \<open>00ff\<close>).

  An object is an association list in insertion order. A property whose value is
  \<open>undefined\<close> is left out by \<open>JSON.stringify\<close>: \<open>object_literal\<close> drops it.
\<close>

datatype json_scalar = JString string | JBool bool | JNull

type_synonym json_object = "(string \<times> json_scalar) list"

definition object_literal :: "(string \<times> json_scalar option) list \<Rightarrow> json_object" where
  "object_literal props =
     List.map_filter (\<lambda>(k, v). case v of None \<Rightarrow> None | Some x \<Rightarrow> Some (k, x)) props"

definition hexdigit :: "nat \<Rightarrow> char" where
  "hexdigit n = (if n < 10 then char_of (48 + n) else char_of (87 + n))"

definition unhex :: "char \<Rightarrow> nat option" where
  "unhex c = (let n = (of_char c :: nat) in
     if 48 \<le> n \<and> n \<le> 57 then Some (n - 48)
     else if 97 \<le> n \<and> n \<le> 102 then Some (n - 87)
     else if 65 \<le> n \<and> n \<le> 70 then Some (n - 55)
     else None)"

text \<open>The escapes of \<open>QuoteJSONString\<close>; \<open>CHR 0x22\<close> is the double quote, \<open>CHR 0x5C\<close> the
  backslash.\<close>

definition quote_char :: "char \<Rightarrow> string" where
  "quote_char c =
     (if c = CHR 0x22 then [CHR 0x5C, CHR 0x22]
      else if c = CHR 0x5C then [CHR 0x5C, CHR 0x5C]
      else if c = CHR 0x08 then [CHR 0x5C, CHR ''b'']
      else if c = CHR 0x0C then [CHR 0x5C, CHR ''f'']
      else if c = CHR 0x0A then [CHR 0x5C, CHR ''n'']
      else if c = CHR 0x0D then [CHR 0x5C, CHR ''r'']
      else if c = CHR 0x09 then [CHR 0x5C, CHR ''t'']
      else if (of_char c :: nat) < 32
        then [CHR 0x5C, CHR ''u'', CHR ''0'', CHR ''0'',
              hexdigit (of_char c div 16), hexdigit (of_char c mod 16)]
      else [c])"

definition QuoteJSONString :: "string \<Rightarrow> string" where
  "QuoteJSONString s = CHR 0x22 # concat (map quote_char s) @ [CHR 0x22]"

fun stringify_scalar :: "json_scalar \<Rightarrow> string" where
  "stringify_scalar (JString s) = QuoteJSONString s"
| "stringify_scalar (JBool b) = (if b then ''true'' else ''false'')"
| "stringify_scalar JNull = ''null''"

definition stringify_member :: "string \<times> json_scalar \<Rightarrow> string" where
  "stringify_member kv = QuoteJSONString (fst kv) @ '':'' @ stringify_scalar (snd kv)"

fun join_commas :: "string list \<Rightarrow> string" where
  "join_commas [] = []"
| "join_commas [x] = x"
| "join_commas (x # y # ys) = x @ '','' @ join_commas (y # ys)"

definition JSON_stringify :: "json_object \<Rightarrow> string" where
  "JSON_stringify obj = ''{'' @ join_commas (map stringify_member obj) @ ''}''"

definition unescape :: "char \<Rightarrow> char option" where
  "unescape e =
     (if e = CHR 0x22 then Some (CHR 0x22)
      else if e = CHR 0x5C then Some (CHR 0x5C)
      else if e = CHR ''/'' then Some (CHR ''/'')
      else if e = CHR ''b'' then Some (CHR 0x08)
      else if e = CHR ''f'' then Some (CHR 0x0C)
      else if e = CHR ''n'' then Some (CHR 0x0A)
      else if e = CHR ''r'' then Some (CHR 0x0D)
      else if e = CHR ''t'' then Some (CHR 0x09)
      else None)"

definition hex4 :: "char \<Rightarrow> char \<Rightarrow> char \<Rightarrow> char \<Rightarrow> nat option" where
  "hex4 a b c d =
     (case (unhex a, unhex b, unhex c, unhex d) of
        (Some w, Some x, Some y, Some z) \<Rightarrow> Some (((w * 16 + x) * 16 + y) * 16 + z)
      | _ \<Rightarrow> None)"

definition cons_result :: "char \<Rightarrow> (string \<times> string) option \<Rightarrow> (string \<times> string) option" where
  "cons_result c r = map_option (\<lambda>(s, rest). (c # s, rest)) r"

text \<open>\<open>unquote\<close> reads a string literal after its opening quote and returns its value and
  the text after the closing quote.\<close>

fun unquote :: "string \<Rightarrow> (string \<times> string) option" where
  "unquote [] = None"
| "unquote (c # cs) =
     (if c = CHR 0x22 then Some ([], cs)
      else if c = CHR 0x5C then
        (case cs of
           [] \<Rightarrow> None
         | e # r \<Rightarrow>
             if e = CHR ''u'' then
               (case r of
                  a # b # c' # d # r' \<Rightarrow>
                    (case hex4 a b c' d of
                       Some n \<Rightarrow> if n < 256 then cons_result (char_of n) (unquote r') else None
                     | None \<Rightarrow> None)
                | _ \<Rightarrow> None)
             else
               (case unescape e of
                  Some ch \<Rightarrow> cons_result ch (unquote r)
                | None \<Rightarrow> None))
      else if (of_char c :: nat) < 32 then None
      else cons_result c (unquote cs))"

definition is_ws :: "char \<Rightarrow> bool" where
  "is_ws c \<longleftrightarrow> c = CHR '' '' \<or> c = CHR 0x09 \<or> c = CHR 0x0A \<or> c = CHR 0x0D"

definition skip_ws :: "string \<Rightarrow> string" where
  "skip_ws = dropWhile is_ws"

definition parse_scalar :: "string \<Rightarrow> (json_scalar \<times> string) option" where
  "parse_scalar s =
     (case s of
        [] \<Rightarrow> None
      | c # r \<Rightarrow>
          if c = CHR 0x22 then map_option (\<lambda>(v, rest). (JString v, rest)) (unquote r)
          else if take 4 s = ''true'' then Some (JBool True, drop 4 s)
          else if take 5 s = ''false'' then Some (JBool False, drop 5 s)
          else if take 4 s = ''null'' then Some (JNull, drop 4 s)
          else None)"

definition parse_member :: "string \<Rightarrow> ((string \<times> json_scalar) \<times> string) option" where
  "parse_member s =
     (case skip_ws s of
        [] \<Rightarrow> None
      | q # r \<Rightarrow>
          if q \<noteq> CHR 0x22 then None
          else
            (case unquote r of
               None \<Rightarrow> None
             | Some (k, r1) \<Rightarrow>
                 (case skip_ws r1 of
                    [] \<Rightarrow> None
                  | colon # r2 \<Rightarrow>
                      if colon \<noteq> CHR '':'' then None
                      else map_option (\<lambda>(v, rest). ((k, v), rest)) (parse_scalar (skip_ws r2)))))"

lemma unquote_shorter: "unquote s = Some (x, r) \<Longrightarrow> length r < length s"
proof (induction s arbitrary: x r rule: unquote.induct)
  case 1
  then show ?case by simp
next
  case (2 c cs)
  show ?case
    using "2.prems" "2.IH"
    by (fastforce simp: cons_result_def split: if_splits list.splits option.splits)
qed

lemma skip_ws_length: "length (skip_ws s) \<le> length s"
  by (simp add: skip_ws_def length_dropWhile_le)

lemma parse_scalar_shorter: "parse_scalar s = Some (v, r) \<Longrightarrow> length r < length s"
  by (auto simp: parse_scalar_def split: list.splits if_splits dest!: unquote_shorter)

lemma parse_member_shorter: "parse_member s = Some (kv, r) \<Longrightarrow> length r < length s"
proof -
  assume a: "parse_member s = Some (kv, r)"
  then obtain q r0 where s0: "skip_ws s = q # r0" "q = CHR 0x22"
    by (auto simp: parse_member_def split: list.splits if_splits)
  with a obtain k r1 where u: "unquote r0 = Some (k, r1)"
    by (auto simp: parse_member_def split: option.splits)
  with a s0 obtain colon r2 where c: "skip_ws r1 = colon # r2" "colon = CHR '':''"
    by (auto simp: parse_member_def split: list.splits if_splits)
  with a s0 u obtain v where p: "parse_scalar (skip_ws r2) = Some (v, r)"
    by (auto simp: parse_member_def)
  have "length r < length (skip_ws r2)" using p by (rule parse_scalar_shorter)
  also have "\<dots> \<le> length r2" by (rule skip_ws_length)
  also have "\<dots> < length (skip_ws r1)" using c by simp
  also have "\<dots> \<le> length r1" by (rule skip_ws_length)
  also have "\<dots> < length r0" using u by (rule unquote_shorter)
  also have "\<dots> < length (skip_ws s)" using s0 by simp
  also have "\<dots> \<le> length s" by (rule skip_ws_length)
  finally show ?thesis .
qed

text \<open>The members of an object, up to and including its closing brace.\<close>

function parse_members :: "string \<Rightarrow> ((string \<times> json_scalar) list \<times> string) option" where
  "parse_members s =
     (case parse_member s of
        None \<Rightarrow> None
      | Some (kv, r) \<Rightarrow>
          (case skip_ws r of
             [] \<Rightarrow> None
           | c # r1 \<Rightarrow>
               if c = CHR ''}'' then Some ([kv], r1)
               else if c = CHR '','' then
                 map_option (\<lambda>(kvs, rest). (kv # kvs, rest)) (parse_members r1)
               else None))"
  by pat_completeness auto
termination
proof (relation "measure length")
  show "wf (measure length)" by simp
next
  fix s x2 x y c r1
  assume "parse_member s = Some x2" "(x, y) = x2" "skip_ws y = c # r1"
  then have "length y < length s" "length r1 < length (skip_ws y)"
    by (auto dest: parse_member_shorter)
  with skip_ws_length [of y] show "(r1, s) \<in> measure length" by simp
qed

declare parse_members.simps [simp del]

text \<open>A repeated key keeps its first position and takes the last value, as in JavaScript.\<close>

definition JSON_parse :: "string \<Rightarrow> json_object option" where
  "JSON_parse s =
     (case skip_ws s of
        [] \<Rightarrow> None
      | c # r \<Rightarrow>
          if c \<noteq> CHR ''{'' then None
          else
            (case skip_ws r of
               [] \<Rightarrow> None
             | c1 # r1 \<Rightarrow>
                 if c1 = CHR ''}'' then (if skip_ws r1 = [] then Some [] else None)
                 else
                   (case parse_members r of
                      None \<Rightarrow> None
                    | Some (kvs, rest) \<Rightarrow>
                        if skip_ws rest = []
                        then Some (fold (\<lambda>kv obj. AList.update (fst kv) (snd kv) obj) kvs [])
                        else None)))"

section \<open>The layers below the controller\<close>

text \<open>
  The controller imports \<open>inbox.js\<close>, \<open>team-manager.js\<close>, \<open>task-manager.js\<close>,
  \<open>process-manager.js\<close> and \<open>inbox-poller.js\<close>. These modules are modelled from the
  specification, each by the least state that carries what the specification says of it.
  The shapes of the objects that cross the boundary (an inbox message, a team member, a
  spawn request) are the ones the controller builds.
\<close>

subsection \<open>Mailbox I/O\<close>

record InboxMessage =
  msg_from :: string
  msg_text :: string
  msg_timestamp :: string
  msg_summary :: "string option"

text \<open>Modelled from the spec: the mailbox store behind \<open>inbox.js\<close> (sections 3 and 4.1):
  one append-only log per (team, recipient) pair; a log that was never written is
  empty.\<close>

type_synonym mailboxes = "string \<times> string \<Rightarrow> InboxMessage list"

text \<open>Modelled from the spec: \<open>writeInbox\<close> of \<open>inbox.js\<close> (section 4.1, append): adds one
  envelope at the end of the recipient's log, creating the log if absent.\<close>

definition writeInbox :: "string \<Rightarrow> string \<Rightarrow> InboxMessage \<Rightarrow> mailboxes \<Rightarrow> mailboxes" where
  "writeInbox teamName' agentName envelope boxes =
     boxes((teamName', agentName) := boxes (teamName', agentName) @ [envelope])"

text \<open>Modelled from the spec: \<open>readInbox\<close> of \<open>inbox.js\<close> (section 4.1, readAll): the full
  log, without advancing any cursor; empty for a missing team or recipient.\<close>

definition readInbox :: "string \<Rightarrow> string \<Rightarrow> mailboxes \<Rightarrow> InboxMessage list" where
  "readInbox teamName' agentName boxes = boxes (teamName', agentName)"

subsection \<open>Message classifier\<close>

text \<open>Modelled from the spec: the recognized \<open>type\<close> discriminators of \<open>inbox.js\<close>
  (sections 3 and 6).\<close>

definition RECOGNIZED_TYPES :: "string list" where
  "RECOGNIZED_TYPES =
     [''idle_notification'', ''shutdown_request'', ''shutdown_approved'',
      ''plan_approval_request'', ''plan_approval_response'',
      ''permission_request'', ''permission_response'', ''task_assignment'']"

text \<open>Modelled from the spec: the plain-text variant of \<open>inbox.js\<close> (section 4.2),
  wrapping the original string verbatim.\<close>

definition plain_text :: "string \<Rightarrow> json_object" where
  "plain_text raw = [(''type'', JString ''plain_text''), (''text'', JString raw)]"

text \<open>Modelled from the spec: \<open>parseMessage\<close> of \<open>inbox.js\<close> (section 4.2): strict JSON
  parse of the text; with a recognized \<open>type\<close> discriminator the parsed object is the typed
  variant, otherwise (parse failure, no or unknown type) the result is the plain-text
  variant wrapping the original string. It never throws.\<close>

definition parseMessage :: "InboxMessage \<Rightarrow> json_object" where
  "parseMessage m =
     (case JSON_parse (msg_text m) of
        None \<Rightarrow> plain_text (msg_text m)
      | Some obj \<Rightarrow>
          (case map_of obj ''type'' of
             Some (JString t) \<Rightarrow> if t \<in> set RECOGNIZED_TYPES then obj else plain_text (msg_text m)
           | _ \<Rightarrow> plain_text (msg_text m)))"

text \<open>\<open>parsed.type\<close>, and a string field of a parsed message.\<close>

definition string_field :: "string \<Rightarrow> json_object \<Rightarrow> string option" where
  "string_field k obj = (case map_of obj k of Some (JString s) \<Rightarrow> Some s | _ \<Rightarrow> None)"

definition parsed_type :: "json_object \<Rightarrow> string" where
  "parsed_type obj = (case string_field ''type'' obj of Some t \<Rightarrow> t | None \<Rightarrow> [])"

subsection \<open>Team registry\<close>

record TeamMember =
  tm_agentId :: string
  tm_name :: string
  tm_agentType :: string
  tm_model :: "string option"
  tm_joinedAt :: int
  tm_tmuxPaneId :: string
  tm_cwd :: string
  tm_subscriptions :: "string list"

record TeamConfig =
  cfg_name :: string
  cfg_sessionId :: string
  cfg_cwd :: string
  cfg_members :: "TeamMember list"

text \<open>Modelled from the spec: the state of \<open>TeamManager\<close> (section 4.3): the team's
  configuration file; \<open>None\<close> while the team's namespace does not exist.\<close>

type_synonym TeamManager = "TeamConfig option"

text \<open>Modelled from the spec: \<open>TeamManager.create\<close> of \<open>team-manager.js\<close> (section 4.3):
  establishes the namespace and writes a configuration with a synthesized session id and
  an empty member list; fails if the team already has live state.\<close>

definition TeamManager_create :: "string \<Rightarrow> string \<Rightarrow> string \<Rightarrow> TeamManager \<Rightarrow> (error + unit) \<times> TeamManager" where
  "TeamManager_create sid cwd' name t =
     (case t of
        Some cfg \<Rightarrow> (Inl (Error (''Team '' @ name @ '' already exists'')), t)
      | None \<Rightarrow> (Inr (), Some \<lparr>cfg_name = name, cfg_sessionId = sid, cfg_cwd = cwd',
                                cfg_members = []\<rparr>))"

text \<open>Modelled from the spec: \<open>TeamManager.getConfig\<close> (section 4.3): the current
  membership snapshot; fails with a not-found error if the namespace does not exist.\<close>

definition TeamManager_getConfig :: "string \<Rightarrow> TeamManager \<Rightarrow> error + TeamConfig" where
  "TeamManager_getConfig name t =
     (case t of None \<Rightarrow> Inl (Error (''Team '' @ name @ '' not found'')) | Some cfg \<Rightarrow> Inr cfg)"

text \<open>Modelled from the spec: \<open>TeamManager.addMember\<close> (section 4.3): adds the member to
  the list, idempotently (a name already present is not added again).\<close>

definition TeamManager_addMember :: "string \<Rightarrow> TeamMember \<Rightarrow> TeamManager \<Rightarrow> (error + unit) \<times> TeamManager" where
  "TeamManager_addMember name m t =
     (case t of
        None \<Rightarrow> (Inl (Error (''Team '' @ name @ '' not found'')), t)
      | Some cfg \<Rightarrow>
          (Inr (), Some (cfg\<lparr>cfg_members :=
             (if tm_name m \<in> set (map tm_name (cfg_members cfg)) then cfg_members cfg
              else cfg_members cfg @ [m])\<rparr>)))"

text \<open>Modelled from the spec: \<open>TeamManager.removeMember\<close> (section 4.3): removes the
  member; removing a non-member is a no-op.\<close>

definition TeamManager_removeMember :: "string \<Rightarrow> string \<Rightarrow> TeamManager \<Rightarrow> (error + unit) \<times> TeamManager" where
  "TeamManager_removeMember name agent t =
     (case t of
        None \<Rightarrow> (Inl (Error (''Team '' @ name @ '' not found'')), t)
      | Some cfg \<Rightarrow>
          (Inr (), Some (cfg\<lparr>cfg_members := filter (\<lambda>m. tm_name m \<noteq> agent) (cfg_members cfg)\<rparr>)))"

text \<open>Modelled from the spec: the \<open>sessionId\<close> property of \<open>TeamManager\<close>: the session id
  synthesized by \<open>create\<close>.\<close>

definition TeamManager_sessionId :: "TeamManager \<Rightarrow> string" where
  "TeamManager_sessionId t = (case t of None \<Rightarrow> [] | Some cfg \<Rightarrow> cfg_sessionId cfg)"

subsection \<open>Task ledger\<close>

datatype TaskStatus = pending | in_progress | completed

record TaskFile =
  task_id :: string
  task_subject :: string
  task_description :: string
  task_activeForm :: "string option"
  task_status :: TaskStatus
  task_owner :: "string option"
  task_blocks :: "string list"
  task_blockedBy :: "string list"

text \<open>The argument of \<open>createTask\<close>: a task without its id, with optional status and
  dependency links.\<close>

record TaskInput =
  in_subject :: string
  in_description :: string
  in_activeForm :: "string option"
  in_owner :: "string option"
  in_status :: "TaskStatus option"
  in_blocks :: "string list option"
  in_blockedBy :: "string list option"

record TaskPatch =
  up_subject :: "string option"
  up_description :: "string option"
  up_activeForm :: "string option"
  up_owner :: "string option"
  up_status :: "TaskStatus option"
  up_blocks :: "string list option"
  up_blockedBy :: "string list option"

text \<open>Modelled from the spec: the state of \<open>TaskManager\<close> (sections 2, 3 and 6): whether
  the ledger's directory exists, how many tasks were ever created in it, and one record
  per task file, keyed by the task id.\<close>

record TaskManager =
  tk_dir :: bool
  tk_created :: nat
  tk_files :: "(string \<times> TaskFile) list"

text \<open>Modelled from the spec: \<open>TaskManager.init\<close> of \<open>task-manager.js\<close> (section 4.6,
  "initializes the task ledger"): makes the team's task directory.\<close>

definition TaskManager_init :: "TaskManager \<Rightarrow> TaskManager" where
  "TaskManager_init tm = tm\<lparr>tk_dir := True\<rparr>"

text \<open>Modelled from the spec: \<open>TaskManager.create\<close> (sections 3 and 6): the new record is
  addressed by a numeric string id that starts at "1" and increments per creation; status
  defaults to pending and the dependency links to empty lists. Writing a file replaces a
  file of the same name.\<close>

definition TaskManager_create :: "TaskInput \<Rightarrow> TaskManager \<Rightarrow> string \<times> TaskManager" where
  "TaskManager_create task tm =
     (let id' = Number_toString (tk_created tm + 1);
          file = \<lparr>task_id = id', task_subject = in_subject task,
                  task_description = in_description task,
                  task_activeForm = in_activeForm task,
                  task_status = (case in_status task of None \<Rightarrow> pending | Some s \<Rightarrow> s),
                  task_owner = in_owner task,
                  task_blocks = (case in_blocks task of None \<Rightarrow> [] | Some b \<Rightarrow> b),
                  task_blockedBy = (case in_blockedBy task of None \<Rightarrow> [] | Some b \<Rightarrow> b)\<rparr>
      in (id', tm\<lparr>tk_created := tk_created tm + 1,
                 tk_files := AList.update id' file (tk_files tm)\<rparr>))"

text \<open>Modelled from the spec: \<open>TaskManager.get\<close> (sections 3 and 7): the record of that id,
  or a not-found error.\<close>

definition TaskManager_get :: "string \<Rightarrow> TaskManager \<Rightarrow> error + TaskFile" where
  "TaskManager_get id' tm =
     (case map_of (tk_files tm) id' of
        None \<Rightarrow> Inl (Error (''Task '' @ id' @ '' not found''))
      | Some file \<Rightarrow> Inr file)"

text \<open>Modelled from the spec: the merge of \<open>TaskManager.update\<close>: the fields present in
  the patch replace those of the record.\<close>

definition apply_patch :: "TaskPatch \<Rightarrow> TaskFile \<Rightarrow> TaskFile" where
  "apply_patch p f =
     f\<lparr>task_subject := (case up_subject p of None \<Rightarrow> task_subject f | Some x \<Rightarrow> x),
       task_description := (case up_description p of None \<Rightarrow> task_description f | Some x \<Rightarrow> x),
       task_activeForm := (case up_activeForm p of None \<Rightarrow> task_activeForm f | Some x \<Rightarrow> Some x),
       task_owner := (case up_owner p of None \<Rightarrow> task_owner f | Some x \<Rightarrow> Some x),
       task_status := (case up_status p of None \<Rightarrow> task_status f | Some x \<Rightarrow> x),
       task_blocks := (case up_blocks p of None \<Rightarrow> task_blocks f | Some x \<Rightarrow> x),
       task_blockedBy := (case up_blockedBy p of None \<Rightarrow> task_blockedBy f | Some x \<Rightarrow> x)\<rparr>"

text \<open>Modelled from the spec: \<open>TaskManager.update\<close> (section 3, "mutated by updateTask"):
  rewrites the record of that id with the given fields and returns it; not-found error
  for an unknown id.\<close>

definition TaskManager_update :: "string \<Rightarrow> TaskPatch \<Rightarrow> TaskManager \<Rightarrow> (error + TaskFile) \<times> TaskManager" where
  "TaskManager_update id' p tm =
     (case map_of (tk_files tm) id' of
        None \<Rightarrow> (Inl (Error (''Task '' @ id' @ '' not found'')), tm)
      | Some file \<Rightarrow>
          (Inr (apply_patch p file),
           tm\<lparr>tk_files := AList.update id' (apply_patch p file) (tk_files tm)\<rparr>))"

text \<open>Modelled from the spec: \<open>TaskManager.delete\<close> (section 3, "deleted by deleteTask"):
  removes the record of that id.\<close>

definition TaskManager_delete :: "string \<Rightarrow> TaskManager \<Rightarrow> TaskManager" where
  "TaskManager_delete id' tm = tm\<lparr>tk_files := AList.delete id' (tk_files tm)\<rparr>"

text \<open>Modelled from the spec: \<open>TaskManager.list\<close> (section 6): enumerates all records of
  the team's task directory.\<close>

definition TaskManager_list :: "TaskManager \<Rightarrow> TaskFile list" where
  "TaskManager_list tm = map snd (tk_files tm)"

subsection \<open>Process supervisor\<close>

record SpawnSpec =
  sp_teamName :: string
  sp_agentName :: string
  sp_agentId :: string
  sp_agentType :: string
  sp_model :: "string option"
  sp_cwd :: string
  sp_parentSessionId :: string
  sp_color :: string
  sp_claudeBinary :: string
  sp_permissions :: "string list option"
  sp_permissionMode :: "string option"
  sp_env :: "(string \<times> string) list option"

text \<open>Modelled from the spec: an agent process as \<open>ProcessManager\<close> tracks it (sections 3
  and 4.4): the request it was spawned with, its pid, whether it is alive, and whether an
  exit callback is registered; the supervisor tracks one process per name.\<close>

record AgentProcess =
  proc_spec :: SpawnSpec
  proc_pid :: "nat option"
  proc_running :: bool
  proc_onExit :: bool

type_synonym ProcessManager = "(string \<times> AgentProcess) list"

text \<open>Modelled from the spec: \<open>ProcessManager.isRunning\<close> of \<open>process-manager.js\<close>
  (section 4.4): whether a live process is tracked under the name.\<close>

definition ProcessManager_isRunning :: "string \<Rightarrow> ProcessManager \<Rightarrow> bool" where
  "ProcessManager_isRunning name pm =
     (case map_of pm name of None \<Rightarrow> False | Some p \<Rightarrow> proc_running p)"

text \<open>Modelled from the spec: \<open>ProcessManager.spawn\<close> (section 4.4): launches the worker
  with the given spec and tracks it under the agent's name; at most one live process per
  name: a spawn under a name still running is rejected with an error, as recommended.
  \<open>pid\<close> is the process id the operating system hands out.\<close>

definition ProcessManager_spawn :: "nat option \<Rightarrow> SpawnSpec \<Rightarrow> ProcessManager \<Rightarrow> (error + AgentProcess) \<times> ProcessManager" where
  "ProcessManager_spawn pid spec pm =
     (if ProcessManager_isRunning (sp_agentName spec) pm
      then (Inl (Error (''Agent '' @ sp_agentName spec @ '' is already running'')), pm)
      else
        (let p = \<lparr>proc_spec = spec, proc_pid = pid, proc_running = True, proc_onExit = False\<rparr>
         in (Inr p, AList.update (sp_agentName spec) p pm)))"

text \<open>Modelled from the spec: \<open>ProcessManager.onExit\<close> (section 4.4): registers the exit
  callback of the process tracked under the name.\<close>

definition ProcessManager_onExit :: "string \<Rightarrow> ProcessManager \<Rightarrow> ProcessManager" where
  "ProcessManager_onExit name pm =
     (case map_of pm name of
        None \<Rightarrow> pm
      | Some p \<Rightarrow> AList.update name (p\<lparr>proc_onExit := True\<rparr>) pm)"

text \<open>Modelled from the spec: \<open>ProcessManager.runningAgents\<close> (section 4.4): the names of
  the tracked live processes.\<close>

definition ProcessManager_runningAgents :: "ProcessManager \<Rightarrow> string list" where
  "ProcessManager_runningAgents pm = map fst (filter (\<lambda>e. proc_running (snd e)) pm)"

text \<open>Modelled from the spec: \<open>ProcessManager.kill\<close> (section 4.4): terminates the process
  of that name and resolves once it is gone, at once if it was gone already.\<close>

definition ProcessManager_kill :: "string \<Rightarrow> ProcessManager \<Rightarrow> ProcessManager" where
  "ProcessManager_kill name pm =
     (case map_of pm name of
        None \<Rightarrow> pm
      | Some p \<Rightarrow> AList.update name (p\<lparr>proc_running := False\<rparr>) pm)"

text \<open>Modelled from the spec: \<open>ProcessManager.killAll\<close> (section 4.4): terminates every
  tracked running process.\<close>

definition ProcessManager_killAll :: "ProcessManager \<Rightarrow> ProcessManager" where
  "ProcessManager_killAll pm = map (\<lambda>e. (fst e, (snd e)\<lparr>proc_running := False\<rparr>)) pm"

subsection \<open>Inbox poller\<close>

text \<open>Modelled from the spec: the state machine of \<open>InboxPoller\<close> of \<open>inbox-poller.js\<close>
  (section 4.5): stopped, running, stopped; \<open>start\<close> and \<open>stop\<close> set the state.\<close>

datatype InboxPoller = poller_stopped | poller_running

section \<open>The controller (controller.ts)\<close>

definition PROTOCOL_ONLY_TYPES :: "string list" where
  "PROTOCOL_ONLY_TYPES = [''shutdown_approved'', ''plan_approval_response'', ''permission_response'']"

definition AGENT_COLORS :: "string list" where
  "AGENT_COLORS = [''#00FF00'', ''#00BFFF'', ''#FF6347'', ''#FFD700'',
                   ''#DA70D6'', ''#40E0D0'', ''#FF69B4'', ''#7B68EE'']"

text \<open>The two request messages that travel with events, with the fields their
  listeners read.\<close>

record PlanApprovalRequestMessage =
  plan_requestId :: string
  plan_timestamp :: string
  plan_planContent :: "string option"

record PermissionRequestMessage =
  perm_requestId :: string
  perm_timestamp :: string
  perm_toolName :: string
  perm_description :: string

text \<open>The typed event stream of the controller.\<close>

datatype event =
    agent_spawned string nat
  | agent_exited string "int option"
  | idle string
  | shutdown_approved string json_object
  | plan_approval_request string PlanApprovalRequestMessage
  | permission_request string PermissionRequestMessage
  | message string InboxMessage

text \<open>
  The controller object together with what it owns or reaches on disk: its team's
  configuration file, its task ledger, its processes, its poller, the mailboxes, and the
  events it has emitted so far (oldest first). Logging has no effect on this state and is
  left out.
\<close>

record Controller =
  teamName :: string
  cwd :: string
  claudeBinary :: string
  defaultEnv :: "(string \<times> string) list"
  colorIndex :: nat
  initialized :: bool
  team :: TeamManager
  tasks :: TaskManager
  processes :: ProcessManager
  poller :: InboxPoller
  inboxes :: mailboxes
  emitted :: "event list"

record ControllerOptions =
  co_teamName :: "string option"
  co_cwd :: "string option"
  co_claudeBinary :: "string option"
  co_env :: "(string \<times> string) list option"

text \<open>The constructor, for a team name not in use: no configuration file and an empty
  ledger. \<open>uuid8\<close> is \<open>randomUUID().slice(0, 8)\<close>, \<open>process_cwd\<close> is \<open>process.cwd()\<close>,
  \<open>disk\<close> the mailboxes present when the controller is made.\<close>

definition new_Controller :: "string \<Rightarrow> string \<Rightarrow> mailboxes \<Rightarrow> ControllerOptions \<Rightarrow> Controller" where
  "new_Controller uuid8 process_cwd disk opts =
     \<lparr>teamName = or_default (co_teamName opts) (''ctrl-'' @ uuid8),
      cwd = or_default (co_cwd opts) process_cwd,
      claudeBinary = or_default (co_claudeBinary opts) ''claude'',
      defaultEnv = (case co_env opts of None \<Rightarrow> [] | Some e \<Rightarrow> e),
      colorIndex = 0,
      initialized = False,
      team = None,
      tasks = \<lparr>tk_dir = False, tk_created = 0, tk_files = []\<rparr>,
      processes = [],
      poller = poller_stopped,
      inboxes = disk,
      emitted = []\<rparr>"

definition ensureInitialized :: "Controller \<Rightarrow> error + unit" where
  "ensureInitialized c =
     (if \<not> initialized c then Inl (Error ''Controller not initialized. Call init() first.'')
      else Inr ())"

subsection \<open>Lifecycle\<close>

text \<open>\<open>init\<close> returns \<open>this\<close>: the controller in the second component. \<open>sid\<close> is the
  session id the registry synthesizes.\<close>

definition init :: "string \<Rightarrow> Controller \<Rightarrow> (error + unit) \<times> Controller" where
  "init sid c =
     (if initialized c then (Inr (), c)
      else
        (case TeamManager_create sid (cwd c) (teamName c) (team c) of
           (Inl e, t) \<Rightarrow> (Inl e, c\<lparr>team := t\<rparr>)
         | (Inr u, t) \<Rightarrow>
             (Inr (), c\<lparr>team := t, tasks := TaskManager_init (tasks c), poller := poller_running,
                        initialized := True\<rparr>)))"

subsection \<open>Messaging\<close>

text \<open>\<open>now\<close> is \<open>new Date().toISOString()\<close>; the clock readings within one operation are
  taken at the same instant.\<close>

definition send :: "string \<Rightarrow> string \<Rightarrow> string \<Rightarrow> string option \<Rightarrow> Controller \<Rightarrow> (error + unit) \<times> Controller" where
  "send now agentName message' summary c =
     (case ensureInitialized c of
        Inl e \<Rightarrow> (Inl e, c)
      | Inr u \<Rightarrow>
          (Inr (), c\<lparr>inboxes := writeInbox (teamName c) agentName
                       \<lparr>msg_from = ''controller'', msg_text = message', msg_timestamp = now,
                        msg_summary = summary\<rparr> (inboxes c)\<rparr>))"

text \<open>\<open>now_ms\<close> is \<open>Date.now()\<close>.\<close>

definition sendShutdownRequest :: "int \<Rightarrow> string \<Rightarrow> string \<Rightarrow> Controller \<Rightarrow> (error + unit) \<times> Controller" where
  "sendShutdownRequest now_ms now agentName c =
     (let requestId = ''shutdown-'' @ Int_toString now_ms @ ''@'' @ agentName;
          msg = JSON_stringify (object_literal
            [(''type'', Some (JString ''shutdown_request'')),
             (''requestId'', Some (JString requestId)),
             (''from'', Some (JString ''controller'')),
             (''reason'', Some (JString ''Controller shutdown requested'')),
             (''timestamp'', Some (JString now))])
      in send now agentName msg None c)"

text \<open>\<open>Promise.all\<close> over the sends: one send per agent, in the order of the member list;
  the first failure is the failure of the whole.\<close>

fun send_each :: "string \<Rightarrow> string list \<Rightarrow> string \<Rightarrow> string option \<Rightarrow> Controller \<Rightarrow> (error + unit) \<times> Controller" where
  "send_each now [] message' summary c = (Inr (), c)"
| "send_each now (a # as) message' summary c =
     (case send now a message' summary c of
        (Inl e, c') \<Rightarrow> (Inl e, c')
      | (Inr u, c') \<Rightarrow> send_each now as message' summary c')"

definition broadcast :: "string \<Rightarrow> string \<Rightarrow> string option \<Rightarrow> Controller \<Rightarrow> (error + unit) \<times> Controller" where
  "broadcast now message' summary c =
     (case ensureInitialized c of
        Inl e \<Rightarrow> (Inl e, c)
      | Inr u \<Rightarrow>
          (case TeamManager_getConfig (teamName c) (team c) of
             Inl e \<Rightarrow> (Inl e, c)
           | Inr config \<Rightarrow>
               (let agents = filter (\<lambda>m. tm_name m \<noteq> ''controller'') (cfg_members config)
                in send_each now (map tm_name agents) message' summary c)))"

subsection \<open>Shutdown\<close>

text \<open>The shutdown requests go out one by one, a failure of one being caught and
  ignored; after the bounded wait every process still alive is killed, the poller is
  stopped and the team's namespace, mailboxes included, is removed.\<close>

definition request_shutdowns :: "int \<Rightarrow> string \<Rightarrow> string list \<Rightarrow> Controller \<Rightarrow> Controller" where
  "request_shutdowns now_ms now running c =
     fold (\<lambda>name c'. snd (sendShutdownRequest now_ms now name c')) running c"

text \<open>Modelled from the spec: \<open>TeamManager.destroy\<close> (sections 4.3 and 6): recursively
  deletes the team's on-disk namespace, its mailboxes with it.\<close>

definition TeamManager_destroy :: "Controller \<Rightarrow> Controller" where
  "TeamManager_destroy c =
     c\<lparr>team := None,
       inboxes := (\<lambda>key. if fst key = teamName c then [] else inboxes c key)\<rparr>"

text \<open>The exit listeners armed by \<open>spawnAgent\<close> emit \<open>agent:exited\<close> for the processes
  that were alive and are killed; a killed process has no exit code.\<close>

definition exit_events :: "ProcessManager \<Rightarrow> event list" where
  "exit_events pm =
     map (\<lambda>e. agent_exited (fst e) None)
       (filter (\<lambda>e. proc_running (snd e) \<and> proc_onExit (snd e)) pm)"

definition shutdown :: "int \<Rightarrow> string \<Rightarrow> Controller \<Rightarrow> Controller" where
  "shutdown now_ms now c =
     (let running = ProcessManager_runningAgents (processes c);
          c1 = request_shutdowns now_ms now running c;
          c2 = c1\<lparr>emitted := emitted c1 @ exit_events (processes c1),
                  processes := ProcessManager_killAll (processes c1)\<rparr>;
          c3 = c2\<lparr>poller := poller_stopped\<rparr>;
          c4 = TeamManager_destroy c3
      in c4\<lparr>initialized := False\<rparr>)"

subsection \<open>Agent management\<close>

record SpawnAgentOptions =
  so_name :: string
  so_type :: "string option"
  so_model :: "string option"
  so_cwd :: "string option"
  so_permissions :: "string list option"
  so_permissionMode :: "string option"
  so_env :: "(string \<times> string) list option"

record AgentHandle =
  handle_name :: string
  handle_pid :: "nat option"

text \<open>Object spread \<open>{...a, ...b}\<close>: the properties of \<open>a\<close>, then those of \<open>b\<close> assigned
  over them one by one; spreading \<open>undefined\<close> adds nothing.\<close>

definition spread :: "(string \<times> string) list \<Rightarrow> (string \<times> string) list option \<Rightarrow> (string \<times> string) list" where
  "spread a b =
     fold (\<lambda>kv obj. AList.update (fst kv) (snd kv) obj) (case b of None \<Rightarrow> [] | Some e \<Rightarrow> e)
       (fold (\<lambda>kv obj. AList.update (fst kv) (snd kv) obj) a [])"

text \<open>The environment handed to the process: lines 176 to 179 of \<open>spawnAgent\<close>.\<close>

definition spawn_env :: "Controller \<Rightarrow> SpawnAgentOptions \<Rightarrow> (string \<times> string) list option" where
  "spawn_env c opts =
     (if length (map fst (defaultEnv c)) > 0 \<or> so_env opts \<noteq> None
      then Some (spread (defaultEnv c) (so_env opts))
      else None)"

text \<open>\<open>joinedAt\<close> is \<open>Date.now()\<close>, \<open>pid\<close> the process id of the spawned process.\<close>

definition spawnAgent :: "int \<Rightarrow> nat option \<Rightarrow> SpawnAgentOptions \<Rightarrow> Controller \<Rightarrow> (error + AgentHandle) \<times> Controller" where
  "spawnAgent joinedAt pid opts c =
     (case ensureInitialized c of
        Inl e \<Rightarrow> (Inl e, c)
      | Inr u \<Rightarrow>
          (let agentId = so_name opts @ ''@'' @ teamName c;
               color = AGENT_COLORS ! (colorIndex c mod length AGENT_COLORS);
               c1 = c\<lparr>colorIndex := colorIndex c + 1\<rparr>;
               cwd' = or_default (so_cwd opts) (cwd c1);
               member = \<lparr>tm_agentId = agentId, tm_name = so_name opts,
                         tm_agentType = or_default (so_type opts) ''general-purpose'',
                         tm_model = so_model opts, tm_joinedAt = joinedAt,
                         tm_tmuxPaneId = [], tm_cwd = cwd', tm_subscriptions = []\<rparr>
           in case TeamManager_addMember (teamName c1) member (team c1) of
                (Inl e, t) \<Rightarrow> (Inl e, c1\<lparr>team := t\<rparr>)
              | (Inr u', t) \<Rightarrow>
                  (let c2 = c1\<lparr>team := t\<rparr>;
                       env = spawn_env c2 opts
                   in case ProcessManager_spawn pid
                        \<lparr>sp_teamName = teamName c2, sp_agentName = so_name opts,
                         sp_agentId = agentId,
                         sp_agentType = or_default (so_type opts) ''general-purpose'',
                         sp_model = so_model opts, sp_cwd = cwd',
                         sp_parentSessionId = TeamManager_sessionId (team c2),
                         sp_color = color, sp_claudeBinary = claudeBinary c2,
                         sp_permissions = so_permissions opts,
                         sp_permissionMode = so_permissionMode opts,
                         sp_env = env\<rparr> (processes c2) of
                        (Inl e, pm) \<Rightarrow> (Inl e, c2\<lparr>processes := pm\<rparr>)
                      | (Inr proc, pm) \<Rightarrow>
                          (let c3 = c2\<lparr>processes := pm\<rparr>;
                               c4 = c3\<lparr>emitted := emitted c3 @
                                      [agent_spawned (so_name opts)
                                         (case proc_pid proc of None \<Rightarrow> 0 | Some n \<Rightarrow> n)]\<rparr>;
                               c5 = c4\<lparr>processes := ProcessManager_onExit (so_name opts) (processes c4)\<rparr>
                           in (Inr \<lparr>handle_name = so_name opts, handle_pid = proc_pid proc\<rparr>, c5)))))"

definition isAgentRunning :: "string \<Rightarrow> Controller \<Rightarrow> bool" where
  "isAgentRunning name c = ProcessManager_isRunning name (processes c)"

definition killAgent :: "string \<Rightarrow> Controller \<Rightarrow> (error + unit) \<times> Controller" where
  "killAgent name c =
     (let c1 = c\<lparr>emitted := emitted c @
                  exit_events (filter (\<lambda>e. fst e = name) (processes c)),
                processes := ProcessManager_kill name (processes c)\<rparr>
      in case TeamManager_removeMember (teamName c1) name (team c1) of
           (r, t) \<Rightarrow> (r, c1\<lparr>team := t\<rparr>))"

subsection \<open>Tasks\<close>

definition task_assignment_msg :: "string \<Rightarrow> string \<Rightarrow> TaskFile \<Rightarrow> string" where
  "task_assignment_msg now taskId task =
     JSON_stringify (object_literal
       [(''type'', Some (JString ''task_assignment'')),
        (''taskId'', Some (JString taskId)),
        (''subject'', Some (JString (task_subject task))),
        (''description'', Some (JString (task_description task))),
        (''assignedBy'', Some (JString ''controller'')),
        (''timestamp'', Some (JString now))])"

definition createTask :: "string \<Rightarrow> TaskInput \<Rightarrow> Controller \<Rightarrow> (error + string) \<times> Controller" where
  "createTask now task c =
     (case ensureInitialized c of
        Inl e \<Rightarrow> (Inl e, c)
      | Inr u \<Rightarrow>
          (case TaskManager_create task (tasks c) of
             (taskId, tm) \<Rightarrow>
               (let c1 = c\<lparr>tasks := tm\<rparr>
                in case nonempty (in_owner task) of
                     None \<Rightarrow> (Inr taskId, c1)
                   | Some owner \<Rightarrow>
                       (case TaskManager_get taskId (tasks c1) of
                          Inl e \<Rightarrow> (Inl e, c1)
                        | Inr fullTask \<Rightarrow>
                            (case send now owner (task_assignment_msg now taskId fullTask) None c1 of
                               (Inl e, c2) \<Rightarrow> (Inl e, c2)
                             | (Inr u', c2) \<Rightarrow> (Inr taskId, c2))))))"

definition assignTask :: "string \<Rightarrow> string \<Rightarrow> string \<Rightarrow> Controller \<Rightarrow> (error + unit) \<times> Controller" where
  "assignTask now taskId agentName c =
     (case TaskManager_update taskId
             \<lparr>up_subject = None, up_description = None, up_activeForm = None,
              up_owner = Some agentName, up_status = None, up_blocks = None,
              up_blockedBy = None\<rparr> (tasks c) of
        (Inl e, tm) \<Rightarrow> (Inl e, c\<lparr>tasks := tm\<rparr>)
      | (Inr task, tm) \<Rightarrow>
          send now agentName (task_assignment_msg now taskId task) None (c\<lparr>tasks := tm\<rparr>))"

subsection \<open>Protocol responses\<close>

definition sendPlanApproval :: "string \<Rightarrow> string \<Rightarrow> string \<Rightarrow> bool \<Rightarrow> string option \<Rightarrow> Controller \<Rightarrow> (error + unit) \<times> Controller" where
  "sendPlanApproval now agentName requestId approve feedback c =
     (let msg = JSON_stringify (object_literal
            [(''type'', Some (JString ''plan_approval_response'')),
             (''requestId'', Some (JString requestId)),
             (''from'', Some (JString ''controller'')),
             (''approved'', Some (JBool approve)),
             (''feedback'', map_option JString feedback),
             (''timestamp'', Some (JString now))])
      in send now agentName msg None c)"

definition sendPermissionResponse :: "string \<Rightarrow> string \<Rightarrow> string \<Rightarrow> bool \<Rightarrow> Controller \<Rightarrow> (error + unit) \<times> Controller" where
  "sendPermissionResponse now agentName requestId approve c =
     (let msg = JSON_stringify (object_literal
            [(''type'', Some (JString ''permission_response'')),
             (''requestId'', Some (JString requestId)),
             (''from'', Some (JString ''controller'')),
             (''approved'', Some (JBool approve)),
             (''timestamp'', Some (JString now))])
      in send now agentName msg None c)"

subsection \<open>Receiving\<close>

record ReceiveOptions =
  ro_timeout :: "int option"
  ro_pollInterval :: "int option"
  ro_all :: "bool option"

text \<open>\<open>opts?.timeout ?? 60_000\<close>, \<open>opts?.pollInterval ?? 500\<close>, and \<open>opts?.all\<close> as a
  condition. The two numbers are integers here (see \<open>exact_timing\<close> below for the range
  in which that is the program).\<close>

definition opts_timeout :: "ReceiveOptions option \<Rightarrow> int" where
  "opts_timeout opts =
     (case opts of None \<Rightarrow> 60000
      | Some ro \<Rightarrow> (case ro_timeout ro of None \<Rightarrow> 60000 | Some t \<Rightarrow> t))"

definition opts_pollInterval :: "ReceiveOptions option \<Rightarrow> int" where
  "opts_pollInterval opts =
     (case opts of None \<Rightarrow> 500
      | Some ro \<Rightarrow> (case ro_pollInterval ro of None \<Rightarrow> 500 | Some p \<Rightarrow> p))"

definition opts_all :: "ReceiveOptions option \<Rightarrow> bool" where
  "opts_all opts =
     (case opts of None \<Rightarrow> False
      | Some ro \<Rightarrow> (case ro_all ro of None \<Rightarrow> False | Some b \<Rightarrow> b))"

text \<open>
  The classifier enters \<open>receive\<close> and \<open>receiveAny\<close> only through \<open>parseMessage(m).type\<close>;
  it is the parameter \<open>ptype\<close>, so that what is proved holds for every classifier.
\<close>

definition is_meaningful :: "(InboxMessage \<Rightarrow> string) \<Rightarrow> InboxMessage \<Rightarrow> bool" where
  "is_meaningful ptype m \<longleftrightarrow>
     ptype m \<noteq> ''idle_notification'' \<and> ptype m \<notin> set PROTOCOL_ONLY_TYPES"

text \<open>One turn of the loop of \<open>receive\<close>, from the unread batch to the \<open>return\<close>, if any
  (lines 277 to 304).\<close>

definition receive_poll :: "(InboxMessage \<Rightarrow> string) \<Rightarrow> string \<Rightarrow> bool \<Rightarrow> InboxMessage list \<Rightarrow> InboxMessage list option" where
  "receive_poll ptype agentName all unread =
     (let fromAgent = filter (\<lambda>m. msg_from m = agentName) unread
      in if length fromAgent > 0 then
           (let meaningful = filter (is_meaningful ptype) fromAgent
            in case meaningful of
                 m # ms \<Rightarrow> Some (if all then meaningful else [m])
               | [] \<Rightarrow>
                   (let idles = filter (\<lambda>m. ptype m = ''idle_notification'') fromAgent
                    in case idles of
                         i # is \<Rightarrow> Some (if all then idles else [i])
                       | [] \<Rightarrow> None))
         else None)"

text \<open>One turn of the loop of \<open>receiveAny\<close> (lines 323 to 334).\<close>

definition receiveAny_poll :: "(InboxMessage \<Rightarrow> string) \<Rightarrow> InboxMessage list \<Rightarrow> InboxMessage option" where
  "receiveAny_poll ptype unread =
     (case filter (is_meaningful ptype) unread of
        m # ms \<Rightarrow> Some m
      | [] \<Rightarrow> None)"

text \<open>
  Time and the mailbox are the environment of the loop. \<open>clock\<close> gives the successive
  readings of \<open>Date.now()\<close>, in milliseconds: reading 0 is the one that fixes the
  deadline, reading \<open>i + 1\<close> is the one of the loop test before poll number \<open>i\<close>. How
  long a poll and a sleep really take shows in these readings and nowhere else.
  \<open>readUnread i\<close> is the batch that the call number \<open>i\<close> of \<open>readUnread(teamName,
  "controller")\<close> returns: the entries other participants appended to the controller's
  mailbox since the call before.

  A loop whose clock never reaches the deadline and whose polls find nothing does not
  return: its value is \<open>None\<close>. A returned list or a thrown error is \<open>Some\<close>.
\<close>

partial_function (option) receive_loop :: "(InboxMessage \<Rightarrow> string) \<Rightarrow> (nat \<Rightarrow> int) \<Rightarrow>
    (nat \<Rightarrow> InboxMessage list) \<Rightarrow> string \<Rightarrow> int \<Rightarrow> int \<Rightarrow> bool \<Rightarrow> int \<Rightarrow> nat \<Rightarrow>
    (error + InboxMessage list) option" where
  "receive_loop ptype clock readUnread agentName timeout interval all deadline i =
     (if clock (Suc i) < deadline then
        (case receive_poll ptype agentName all (readUnread i) of
           Some result \<Rightarrow> Some (Inr result)
         | None \<Rightarrow>
             receive_loop ptype clock readUnread agentName timeout interval all deadline (Suc i))
      else Some (Inl (Error (''Timeout ('' @ Int_toString timeout @ ''ms) waiting for message from ''
                        @ [CHR 0x22] @ agentName @ [CHR 0x22]))))"

definition receive :: "(InboxMessage \<Rightarrow> string) \<Rightarrow> (nat \<Rightarrow> int) \<Rightarrow> (nat \<Rightarrow> InboxMessage list) \<Rightarrow>
    string \<Rightarrow> ReceiveOptions option \<Rightarrow> (error + InboxMessage list) option" where
  "receive ptype clock readUnread agentName opts =
     (let timeout = opts_timeout opts;
          interval = opts_pollInterval opts;
          deadline = clock 0 + timeout
      in receive_loop ptype clock readUnread agentName timeout interval (opts_all opts) deadline 0)"

partial_function (option) receiveAny_loop :: "(InboxMessage \<Rightarrow> string) \<Rightarrow> (nat \<Rightarrow> int) \<Rightarrow>
    (nat \<Rightarrow> InboxMessage list) \<Rightarrow> int \<Rightarrow> int \<Rightarrow> int \<Rightarrow> nat \<Rightarrow> (error + InboxMessage) option" where
  "receiveAny_loop ptype clock readUnread timeout interval deadline i =
     (if clock (Suc i) < deadline then
        (case receiveAny_poll ptype (readUnread i) of
           Some result \<Rightarrow> Some (Inr result)
         | None \<Rightarrow> receiveAny_loop ptype clock readUnread timeout interval deadline (Suc i))
      else Some (Inl (Error (''Timeout ('' @ Int_toString timeout @ ''ms) waiting for any message''))))"

definition receiveAny :: "(InboxMessage \<Rightarrow> string) \<Rightarrow> (nat \<Rightarrow> int) \<Rightarrow> (nat \<Rightarrow> InboxMessage list) \<Rightarrow>
    ReceiveOptions option \<Rightarrow> (error + InboxMessage) option" where
  "receiveAny ptype clock readUnread opts =
     (let timeout = opts_timeout opts;
          interval = opts_pollInterval opts;
          deadline = clock 0 + timeout
      in receiveAny_loop ptype clock readUnread timeout interval deadline 0)"

text \<open>
  Poll number \<open>k\<close> takes place, unless an earlier poll has returned, when the loop tests
  number 0 to \<open>k\<close> all read a time before the deadline.
\<close>

definition poll_takes_place :: "(nat \<Rightarrow> int) \<Rightarrow> int \<Rightarrow> nat \<Rightarrow> bool" where
  "poll_takes_place clock deadline k \<longleftrightarrow> list_all (\<lambda>j. clock (Suc j) < deadline) [0..<Suc k]"

text \<open>
  A JavaScript number is a double. The timeout is modelled as an integer, and the model
  is the program where the arithmetic of doubles is exact on it: the timeout, the clock
  reading that fixes the deadline, and their sum, the deadline, are safe integers (of
  magnitude at most \<open>2^53 - 1\<close>). Such a timeout prints in a template string as its
  decimal digits. A timeout that is a fraction, \<open>NaN\<close> or infinite is outside the model.
\<close>

definition MAX_SAFE_INTEGER :: int where
  "MAX_SAFE_INTEGER = 9007199254740991"

definition isSafeInteger :: "int \<Rightarrow> bool" where
  "isSafeInteger i \<longleftrightarrow> - MAX_SAFE_INTEGER \<le> i \<and> i \<le> MAX_SAFE_INTEGER"

definition exact_timing :: "(nat \<Rightarrow> int) \<Rightarrow> ReceiveOptions option \<Rightarrow> bool" where
  "exact_timing clock opts \<longleftrightarrow>
     isSafeInteger (opts_timeout opts) \<and> isSafeInteger (clock 0)
     \<and> isSafeInteger (clock 0 + opts_timeout opts)"

section \<open>The Action Tracker (src/api/action-tracker.ts)\<close>

text \<open>
  The tracker keeps three JavaScript \<open>Map\<close>s. A \<open>Map\<close> is insertion ordered and has at
  most one entry per key; it is modelled as an association list whose keys are distinct:
  \<open>set\<close> is \<open>AList.update\<close> (an existing key keeps its position), \<open>delete\<close> is
  \<open>AList.delete\<close>, \<open>get\<close> is \<open>map_of\<close>, and \<open>Array.from(m.values())\<close> is \<open>map snd\<close>.
\<close>

datatype approval_kind = plan | permission

record PendingApproval =
  pa_type :: approval_kind
  pa_agent :: string
  pa_requestId :: string
  pa_timestamp :: string
  pa_action :: string
  pa_planContent :: "string option"
  pa_toolName :: "string option"
  pa_description :: "string option"

record IdleAgent =
  ia_name :: string
  ia_type :: string
  ia_idleSince :: string
  ia_action :: string

record ActionTracker =
  approvals :: "(string \<times> PendingApproval) list"
  idles :: "(string \<times> IdleAgent) list"
  agentTypes :: "(string \<times> string) list"

definition new_ActionTracker :: ActionTracker where
  "new_ActionTracker = \<lparr>approvals = [], idles = [], agentTypes = []\<rparr>"

definition onPlan :: "string \<Rightarrow> PlanApprovalRequestMessage \<Rightarrow> ActionTracker \<Rightarrow> ActionTracker" where
  "onPlan agent parsed t =
     t\<lparr>approvals := AList.update (plan_requestId parsed)
         \<lparr>pa_type = plan, pa_agent = agent, pa_requestId = plan_requestId parsed,
          pa_timestamp = plan_timestamp parsed,
          pa_action = ''POST /agents/'' @ agent @ ''/approve-plan'',
          pa_planContent = plan_planContent parsed,
          pa_toolName = None, pa_description = None\<rparr> (approvals t)\<rparr>"

definition onPermission :: "string \<Rightarrow> PermissionRequestMessage \<Rightarrow> ActionTracker \<Rightarrow> ActionTracker" where
  "onPermission agent parsed t =
     t\<lparr>approvals := AList.update (perm_requestId parsed)
         \<lparr>pa_type = permission, pa_agent = agent, pa_requestId = perm_requestId parsed,
          pa_timestamp = perm_timestamp parsed,
          pa_action = ''POST /agents/'' @ agent @ ''/approve-permission'',
          pa_planContent = None,
          pa_toolName = Some (perm_toolName parsed),
          pa_description = Some (perm_description parsed)\<rparr> (approvals t)\<rparr>"

text \<open>\<open>now\<close> is the value of \<open>new Date().toISOString()\<close> when the event is handled.\<close>

definition onIdle :: "string \<Rightarrow> string \<Rightarrow> ActionTracker \<Rightarrow> ActionTracker" where
  "onIdle now agent t =
     t\<lparr>idles := AList.update agent
         \<lparr>ia_name = agent,
          ia_type = (case map_of (agentTypes t) agent of Some ty \<Rightarrow> ty | None \<Rightarrow> ''unknown''),
          ia_idleSince = now,
          ia_action = ''POST /agents/'' @ agent @ ''/messages''\<rparr> (idles t)\<rparr>"

definition onMessage :: "string \<Rightarrow> ActionTracker \<Rightarrow> ActionTracker" where
  "onMessage agent t = t\<lparr>idles := AList.delete agent (idles t)\<rparr>"

definition onSpawned :: "string \<Rightarrow> ActionTracker \<Rightarrow> ActionTracker" where
  "onSpawned agent t = t\<lparr>idles := AList.delete agent (idles t)\<rparr>"

text \<open>
  The loop of \<open>onExited\<close> walks the entries of the map and deletes, by key, each one whose
  agent is the dead one. Deleting the current entry of a \<open>Map\<close> during its iteration is
  allowed and does not disturb the walk, so the loop visits the entries present at its
  start: a fold over that snapshot, deleting from the map being rebuilt.
\<close>

definition purge_step :: "string \<Rightarrow> string \<times> PendingApproval \<Rightarrow>
    (string \<times> PendingApproval) list \<Rightarrow> (string \<times> PendingApproval) list" where
  "purge_step agent entry m =
     (if pa_agent (snd entry) = agent then AList.delete (fst entry) m else m)"

definition onExited :: "string \<Rightarrow> ActionTracker \<Rightarrow> ActionTracker" where
  "onExited agent t =
     (let t1 = t\<lparr>idles := AList.delete agent (idles t)\<rparr>
      in t1\<lparr>approvals := fold (purge_step agent) (approvals t1) (approvals t1)\<rparr>)"

text \<open>\<open>attach\<close> registers the six handlers as listeners of the controller's events: an
  event the controller emits reaches the tracker as the call of its handler. There is no
  listener for \<open>shutdown:approved\<close>. \<open>now\<close> is the time of the event.\<close>

fun handle_event :: "string \<Rightarrow> event \<Rightarrow> ActionTracker \<Rightarrow> ActionTracker" where
  "handle_event now (plan_approval_request agent parsed) t = onPlan agent parsed t"
| "handle_event now (permission_request agent parsed) t = onPermission agent parsed t"
| "handle_event now (idle agent) t = onIdle now agent t"
| "handle_event now (message agent raw) t = onMessage agent t"
| "handle_event now (agent_spawned agent pid) t = onSpawned agent t"
| "handle_event now (agent_exited agent code) t = onExited agent t"
| "handle_event now (shutdown_approved agent parsed) t = t"

definition registerAgentType :: "string \<Rightarrow> string \<Rightarrow> ActionTracker \<Rightarrow> ActionTracker" where
  "registerAgentType name ty t = t\<lparr>agentTypes := AList.update name ty (agentTypes t)\<rparr>"

definition resolveApproval :: "string \<Rightarrow> ActionTracker \<Rightarrow> ActionTracker" where
  "resolveApproval requestId t = t\<lparr>approvals := AList.delete requestId (approvals t)\<rparr>"

definition getPendingApprovals :: "ActionTracker \<Rightarrow> PendingApproval list" where
  "getPendingApprovals t = map snd (approvals t)"

definition getIdleAgents :: "ActionTracker \<Rightarrow> IdleAgent list" where
  "getIdleAgents t = map snd (idles t)"

text \<open>The invariant of the three maps: one entry per key.\<close>

definition tracker_ok :: "ActionTracker \<Rightarrow> bool" where
  "tracker_ok t \<longleftrightarrow> distinct (map fst (approvals t)) \<and> distinct (map fst (idles t))
     \<and> distinct (map fst (agentTypes t))"

definition example_tracker :: ActionTracker where
  "example_tracker =
     onIdle ''2026-01-01T00:00:02.000Z'' ''deadagent''
       (onPermission ''w2''
          \<lparr>perm_requestId = ''perm-1'', perm_timestamp = ''2026-01-01T00:00:01.000Z'',
           perm_toolName = ''Bash'', perm_description = ''run the tests''\<rparr>
          (onPlan ''deadagent''
             \<lparr>plan_requestId = ''plan-stale'', plan_timestamp = ''2026-01-01T00:00:00.000Z'',
              plan_planContent = Some ''Will never complete''\<rparr>
             new_ActionTracker))"

section \<open>The REST routes (src/api/routes.ts, src/api/index.ts)\<close>

subsection \<open>Validation\<close>

text \<open>\<open>SAFE_NAME_RE\<close> is \<open>/^[a-zA-Z0-9_-]{1,64}$/\<close>: without the multiline flag the
  anchors are the two ends of the string.\<close>

definition safe_char :: "char \<Rightarrow> bool" where
  "safe_char c \<longleftrightarrow>
     c \<in> set ''abcdefghijklmnopqrstuvwxyzABCDEFGHIJKLMNOPQRSTUVWXYZ0123456789_-''"

definition SAFE_NAME_RE_test :: "string \<Rightarrow> bool" where
  "SAFE_NAME_RE_test value' \<longleftrightarrow> 1 \<le> length value' \<and> length value' \<le> 64 \<and> list_all safe_char value'"

definition validateName :: "string \<Rightarrow> string \<Rightarrow> error + unit" where
  "validateName value' field =
     (if \<not> SAFE_NAME_RE_test value'
      then Inl (ValidationError
             (field @ '' must be 1-64 alphanumeric characters, hyphens, or underscores''))
      else Inr ())"

subsection \<open>State, requests and responses\<close>

text \<open>The tracker of the state is attached to the controller of the state: the events
  the controller emits reach the tracker's handlers.\<close>

record ApiState =
  controller :: "Controller option"
  tracker :: ActionTracker
  owned :: bool
  initLock :: bool
  startTime :: int

datatype body =
    error_body string
  | ok_body
  | task_body TaskFile
  | agent_body string "nat option" bool

record response =
  status :: nat
  json :: body

definition getController :: "ApiState \<Rightarrow> error + Controller" where
  "getController state =
     (case controller state of
        None \<Rightarrow> Inl (Error ''No active session. Call POST /session/init first.'')
      | Some ctrl \<Rightarrow> Inr ctrl)"

text \<open>The global error handler of \<open>createApi\<close>: 400 for a validation error, 500 for the
  rest, the message preserved.\<close>

definition onError :: "(error + response) \<times> ApiState \<Rightarrow> response \<times> ApiState" where
  "onError r =
     (case fst r of
        Inl (ValidationError m) \<Rightarrow> \<lparr>status = 400, json = error_body m\<rparr>
      | Inl (Error m) \<Rightarrow> \<lparr>status = 500, json = error_body m\<rparr>
      | Inr resp \<Rightarrow> resp,
      snd r)"

record SpawnAgentBody =
  sb_name :: "string option"
  sb_type :: "string option"
  sb_model :: "string option"
  sb_cwd :: "string option"
  sb_permissions :: "string list option"
  sb_env :: "(string \<times> string) list option"

record SendMessageBody =
  mb_message :: "string option"
  mb_summary :: "string option"

record ApprovePlanBody =
  pb_requestId :: "string option"
  pb_approve :: "bool option"
  pb_feedback :: "string option"

record ApprovePermissionBody =
  qb_requestId :: "string option"
  qb_approve :: "bool option"

record AssignTaskBody =
  ab_agent :: "string option"

subsection \<open>Agents\<close>

text \<open>\<open>POST /agents\<close>. The body's name is validated before anything else is done with
  it. A successful spawn emits \<open>agent:spawned\<close>, which the attached tracker handles.\<close>

definition post_agents :: "int \<Rightarrow> nat option \<Rightarrow> SpawnAgentBody \<Rightarrow> ApiState \<Rightarrow> (error + response) \<times> ApiState" where
  "post_agents joinedAt pid body' state =
     (case getController state of
        Inl e \<Rightarrow> (Inl e, state)
      | Inr ctrl \<Rightarrow>
          (case nonempty (sb_name body') of
             None \<Rightarrow> (Inr \<lparr>status = 400, json = error_body ''name is required''\<rparr>, state)
           | Some name \<Rightarrow>
               (case validateName name ''name'' of
                  Inl e \<Rightarrow> (Inl e, state)
                | Inr u \<Rightarrow>
                    (let agentType = or_default (sb_type body') ''general-purpose'';
                         state1 = state\<lparr>tracker := registerAgentType name agentType (tracker state)\<rparr>
                     in case spawnAgent joinedAt pid
                          \<lparr>so_name = name, so_type = sb_type body', so_model = sb_model body',
                           so_cwd = sb_cwd body', so_permissions = sb_permissions body',
                           so_permissionMode = None, so_env = sb_env body'\<rparr> ctrl of
                          (Inl e, ctrl') \<Rightarrow> (Inl e, state1\<lparr>controller := Some ctrl'\<rparr>)
                        | (Inr handle, ctrl') \<Rightarrow>
                            (Inr \<lparr>status = 201,
                                  json = agent_body (handle_name handle) (handle_pid handle)
                                           (isAgentRunning (handle_name handle) ctrl')\<rparr>,
                             state1\<lparr>controller := Some ctrl',
                                    tracker := onSpawned name (tracker state1)\<rparr>)))))"

text \<open>\<open>POST /agents/:name/messages\<close>; \<open>name\<close> is the path parameter.\<close>

definition post_agent_messages :: "string \<Rightarrow> string \<Rightarrow> SendMessageBody \<Rightarrow> ApiState \<Rightarrow> (error + response) \<times> ApiState" where
  "post_agent_messages now name body' state =
     (case getController state of
        Inl e \<Rightarrow> (Inl e, state)
      | Inr ctrl \<Rightarrow>
          (case nonempty (mb_message body') of
             None \<Rightarrow> (Inr \<lparr>status = 400, json = error_body ''message is required''\<rparr>, state)
           | Some text \<Rightarrow>
               (case send now name text (mb_summary body') ctrl of
                  (Inl e, ctrl') \<Rightarrow> (Inl e, state\<lparr>controller := Some ctrl'\<rparr>)
                | (Inr u, ctrl') \<Rightarrow>
                    (Inr \<lparr>status = 200, json = ok_body\<rparr>, state\<lparr>controller := Some ctrl'\<rparr>))))"

text \<open>\<open>POST /agents/:name/kill\<close>. The exit of the killed process reaches the tracker as
  \<open>agent:exited\<close>.\<close>

definition post_agent_kill :: "string \<Rightarrow> ApiState \<Rightarrow> (error + response) \<times> ApiState" where
  "post_agent_kill name state =
     (case getController state of
        Inl e \<Rightarrow> (Inl e, state)
      | Inr ctrl \<Rightarrow>
          (let tracker' = (if exit_events (filter (\<lambda>e. fst e = name) (processes ctrl)) \<noteq> []
                           then onExited name (tracker state) else tracker state)
           in case killAgent name ctrl of
                (Inl e, ctrl') \<Rightarrow> (Inl e, state\<lparr>controller := Some ctrl', tracker := tracker'\<rparr>)
              | (Inr u, ctrl') \<Rightarrow>
                  (Inr \<lparr>status = 200, json = ok_body\<rparr>,
                   state\<lparr>controller := Some ctrl', tracker := tracker'\<rparr>)))"

text \<open>\<open>POST /agents/:name/shutdown\<close>.\<close>

definition post_agent_shutdown :: "int \<Rightarrow> string \<Rightarrow> string \<Rightarrow> ApiState \<Rightarrow> (error + response) \<times> ApiState" where
  "post_agent_shutdown now_ms now name state =
     (case getController state of
        Inl e \<Rightarrow> (Inl e, state)
      | Inr ctrl \<Rightarrow>
          (case sendShutdownRequest now_ms now name ctrl of
             (Inl e, ctrl') \<Rightarrow> (Inl e, state\<lparr>controller := Some ctrl'\<rparr>)
           | (Inr u, ctrl') \<Rightarrow>
               (Inr \<lparr>status = 200, json = ok_body\<rparr>, state\<lparr>controller := Some ctrl'\<rparr>)))"

text \<open>\<open>POST /agents/:name/approve-plan\<close>; \<open>body.approve ?? true\<close> is the default.\<close>

definition post_agent_approve_plan :: "string \<Rightarrow> string \<Rightarrow> ApprovePlanBody \<Rightarrow> ApiState \<Rightarrow> (error + response) \<times> ApiState" where
  "post_agent_approve_plan now name body' state =
     (case getController state of
        Inl e \<Rightarrow> (Inl e, state)
      | Inr ctrl \<Rightarrow>
          (case nonempty (pb_requestId body') of
             None \<Rightarrow>
               (Inr \<lparr>status = 400, json = error_body ''requestId is required''\<rparr>, state)
           | Some requestId \<Rightarrow>
               (case sendPlanApproval now name requestId
                       (case pb_approve body' of None \<Rightarrow> True | Some b \<Rightarrow> b)
                       (pb_feedback body') ctrl of
                  (Inl e, ctrl') \<Rightarrow> (Inl e, state\<lparr>controller := Some ctrl'\<rparr>)
                | (Inr u, ctrl') \<Rightarrow>
                    (Inr \<lparr>status = 200, json = ok_body\<rparr>,
                     state\<lparr>controller := Some ctrl',
                           tracker := resolveApproval requestId (tracker state)\<rparr>))))"

text \<open>\<open>POST /agents/:name/approve-permission\<close>.\<close>

definition post_agent_approve_permission :: "string \<Rightarrow> string \<Rightarrow> ApprovePermissionBody \<Rightarrow> ApiState \<Rightarrow> (error + response) \<times> ApiState" where
  "post_agent_approve_permission now name body' state =
     (case getController state of
        Inl e \<Rightarrow> (Inl e, state)
      | Inr ctrl \<Rightarrow>
          (case nonempty (qb_requestId body') of
             None \<Rightarrow>
               (Inr \<lparr>status = 400, json = error_body ''requestId is required''\<rparr>, state)
           | Some requestId \<Rightarrow>
               (case sendPermissionResponse now name requestId
                       (case qb_approve body' of None \<Rightarrow> True | Some b \<Rightarrow> b) ctrl of
                  (Inl e, ctrl') \<Rightarrow> (Inl e, state\<lparr>controller := Some ctrl'\<rparr>)
                | (Inr u, ctrl') \<Rightarrow>
                    (Inr \<lparr>status = 200, json = ok_body\<rparr>,
                     state\<lparr>controller := Some ctrl',
                           tracker := resolveApproval requestId (tracker state)\<rparr>))))"

subsection \<open>Tasks\<close>

text \<open>\<open>promise.catch(() => null)\<close>: a failure, whatever its class, becomes \<open>null\<close>.\<close>

definition catch_null :: "error + 'a \<Rightarrow> 'a option" where
  "catch_null r = (case r of Inl e \<Rightarrow> None | Inr x \<Rightarrow> Some x)"

definition task_not_found :: "string \<Rightarrow> response" where
  "task_not_found id' =
     \<lparr>status = 404,
      json = error_body (''Task '' @ [CHR 0x22] @ id' @ [CHR 0x22] @ '' not found'')\<rparr>"

text \<open>\<open>POST /tasks\<close>: the body is handed to \<open>createTask\<close> as it is.\<close>

definition post_tasks :: "string \<Rightarrow> TaskInput \<Rightarrow> ApiState \<Rightarrow> (error + response) \<times> ApiState" where
  "post_tasks now body' state =
     (case getController state of
        Inl e \<Rightarrow> (Inl e, state)
      | Inr ctrl \<Rightarrow>
          if in_subject body' = [] \<or> in_description body' = [] then
            (Inr \<lparr>status = 400, json = error_body ''subject and description are required''\<rparr>,
             state)
          else
            (case createTask now body' ctrl of
               (Inl e, ctrl') \<Rightarrow> (Inl e, state\<lparr>controller := Some ctrl'\<rparr>)
             | (Inr taskId, ctrl') \<Rightarrow>
                 (case TaskManager_get taskId (tasks ctrl') of
                    Inl e \<Rightarrow> (Inl e, state\<lparr>controller := Some ctrl'\<rparr>)
                  | Inr task \<Rightarrow>
                      (Inr \<lparr>status = 201, json = task_body task\<rparr>,
                       state\<lparr>controller := Some ctrl'\<rparr>))))"

text \<open>\<open>GET /tasks/:id\<close>: the id goes to the ledger as it is, and every failure of the
  ledger becomes the 404 answer.\<close>

definition get_task :: "string \<Rightarrow> ApiState \<Rightarrow> (error + response) \<times> ApiState" where
  "get_task id' state =
     (case getController state of
        Inl e \<Rightarrow> (Inl e, state)
      | Inr ctrl \<Rightarrow>
          (case catch_null (TaskManager_get id' (tasks ctrl)) of
             None \<Rightarrow> (Inr (task_not_found id'), state)
           | Some task \<Rightarrow> (Inr \<lparr>status = 200, json = task_body task\<rparr>, state)))"

text \<open>\<open>PATCH /tasks/:id\<close>.\<close>

definition patch_task :: "string \<Rightarrow> TaskPatch \<Rightarrow> ApiState \<Rightarrow> (error + response) \<times> ApiState" where
  "patch_task id' body' state =
     (case getController state of
        Inl e \<Rightarrow> (Inl e, state)
      | Inr ctrl \<Rightarrow>
          (case TaskManager_update id' body' (tasks ctrl) of
             (r, tm) \<Rightarrow>
               (case catch_null r of
                  None \<Rightarrow>
                    (Inr (task_not_found id'), state\<lparr>controller := Some (ctrl\<lparr>tasks := tm\<rparr>)\<rparr>)
                | Some task \<Rightarrow>
                    (Inr \<lparr>status = 200, json = task_body task\<rparr>,
                     state\<lparr>controller := Some (ctrl\<lparr>tasks := tm\<rparr>)\<rparr>))))"

text \<open>\<open>DELETE /tasks/:id\<close>.\<close>

definition delete_task :: "string \<Rightarrow> ApiState \<Rightarrow> (error + response) \<times> ApiState" where
  "delete_task id' state =
     (case getController state of
        Inl e \<Rightarrow> (Inl e, state)
      | Inr ctrl \<Rightarrow>
          (case catch_null (TaskManager_get id' (tasks ctrl)) of
             None \<Rightarrow> (Inr (task_not_found id'), state)
           | Some exists \<Rightarrow>
               (Inr \<lparr>status = 200, json = ok_body\<rparr>,
                state\<lparr>controller := Some (ctrl\<lparr>tasks := TaskManager_delete id' (tasks ctrl)\<rparr>)\<rparr>)))"

text \<open>\<open>POST /tasks/:id/assign\<close>.\<close>

definition post_task_assign :: "string \<Rightarrow> string \<Rightarrow> AssignTaskBody \<Rightarrow> ApiState \<Rightarrow> (error + response) \<times> ApiState" where
  "post_task_assign now id' body' state =
     (case getController state of
        Inl e \<Rightarrow> (Inl e, state)
      | Inr ctrl \<Rightarrow>
          (case nonempty (ab_agent body') of
             None \<Rightarrow> (Inr \<lparr>status = 400, json = error_body ''agent is required''\<rparr>, state)
           | Some agent \<Rightarrow>
               (case catch_null (TaskManager_get id' (tasks ctrl)) of
                  None \<Rightarrow> (Inr (task_not_found id'), state)
                | Some exists \<Rightarrow>
                    (case assignTask now id' agent ctrl of
                       (Inl e, ctrl') \<Rightarrow> (Inl e, state\<lparr>controller := Some ctrl'\<rparr>)
                     | (Inr u, ctrl') \<Rightarrow>
                         (Inr \<lparr>status = 200, json = ok_body\<rparr>,
                          state\<lparr>controller := Some ctrl'\<rparr>)))))"

section \<open>Callers\<close>

text \<open>
  What a caller can interleave with task creation on one controller: creating, updating,
  deleting and assigning tasks, and sending messages. \<open>run_ops\<close> performs a sequence of
  such calls and collects, in order, the ids that the successful \<open>createTask\<close> calls
  returned.
\<close>

datatype call =
    CreateTask TaskInput
  | UpdateTask string TaskPatch
  | DeleteTask string
  | AssignTask string string
  | SendMessage string string

fun apply_call :: "string \<Rightarrow> call \<Rightarrow> Controller \<Rightarrow> string option \<times> Controller" where
  "apply_call now (CreateTask task) c =
     (case createTask now task c of
        (Inr taskId, c') \<Rightarrow> (Some taskId, c')
      | (Inl e, c') \<Rightarrow> (None, c'))"
| "apply_call now (UpdateTask taskId p) c =
     (None, c\<lparr>tasks := snd (TaskManager_update taskId p (tasks c))\<rparr>)"
| "apply_call now (DeleteTask taskId) c =
     (None, c\<lparr>tasks := TaskManager_delete taskId (tasks c)\<rparr>)"
| "apply_call now (AssignTask taskId agentName) c = (None, snd (assignTask now taskId agentName c))"
| "apply_call now (SendMessage agentName text) c = (None, snd (send now agentName text None c))"

fun run_ops :: "string \<Rightarrow> call list \<Rightarrow> Controller \<Rightarrow> string list \<times> Controller" where
  "run_ops now [] c = ([], c)"
| "run_ops now (x # xs) c =
     (case apply_call now x c of
        (r, c') \<Rightarrow>
          (case run_ops now xs c' of
             (ids, c'') \<Rightarrow> ((case r of None \<Rightarrow> [] | Some i \<Rightarrow> [i]) @ ids, c'')))"

fun is_create :: "call \<Rightarrow> bool" where
  "is_create (CreateTask task) = True"
| "is_create x = False"

fun is_delete :: "call \<Rightarrow> bool" where
  "is_delete (DeleteTask taskId) = True"
| "is_delete x = False"

text \<open>A controller right after \<open>init\<close>, a second one, and a session of the REST layer
  around the first.\<close>

definition example_controller0 :: Controller where
  "example_controller0 =
     new_Controller ''1a2b3c4d'' ''/work'' (\<lambda>key. [])
       \<lparr>co_teamName = Some ''my-team_01'', co_cwd = None, co_claudeBinary = None,
        co_env = Some [(''ANTHROPIC_BASE_URL'', ''https://example.test''),
                       (''API_TIMEOUT_MS'', ''3000'')]\<rparr>"

definition example_controller :: Controller where
  "example_controller = snd (init ''session-1'' example_controller0)"

definition example_state :: ApiState where
  "example_state =
     \<lparr>controller = Some example_controller, tracker = new_ActionTracker, owned = False,
      initLock = False, startTime = 0\<rparr>"

text \<open>The entry of an environment under a key; no environment has no entries.\<close>

definition env_entry :: "(string \<times> string) list option \<Rightarrow> string \<Rightarrow> string option" where
  "env_entry env k = (case env of None \<Rightarrow> None | Some e \<Rightarrow> map_of e k)"

text \<open>The invariant of the ledger: one file per id, and every id on disk was handed out
  by one of the creations so far.\<close>

definition ledger_ok :: "TaskManager \<Rightarrow> bool" where
  "ledger_ok tm \<longleftrightarrow> distinct (map fst (tk_files tm))
     \<and> fst ` set (tk_files tm) \<subseteq> Number_toString ` {1..tk_created tm}"

text \<open>The classifier of the specification as the parameter of \<open>receive\<close>.\<close>

definition classify :: "InboxMessage \<Rightarrow> string" where
  "classify m = parsed_type (parseMessage m)"

definition example_idle :: InboxMessage where
  "example_idle =
     \<lparr>msg_from = ''w1'',
      msg_text = JSON_stringify
        [(''type'', JString ''idle_notification''), (''from'', JString ''w1''),
         (''timestamp'', JString ''2026-01-01T00:00:00.000Z'')],
      msg_timestamp = ''2026-01-01T00:00:00.000Z'', msg_summary = None\<rparr>"

definition example_reply :: InboxMessage where
  "example_reply =
     \<lparr>msg_from = ''w1'', msg_text = ''done, see the branch'',
      msg_timestamp = ''2026-01-01T00:00:01.000Z'', msg_summary = None\<rparr>"

definition example_permission_response :: InboxMessage where
  "example_permission_response =
     \<lparr>msg_from = ''w1'',
      msg_text = JSON_stringify
        [(''type'', JString ''permission_response''), (''requestId'', JString ''perm-1''),
         (''approved'', JBool True)],
      msg_timestamp = ''2026-01-01T00:00:00.500Z'', msg_summary = None\<rparr>"

text \<open>Four mailboxes of the controller, as sequences of unread batches: one that only
  ever holds an idle notification, one that stays silent but for protocol-only traffic,
  one where a reply arrives before the third poll, and one where it arrives before the
  fourth.\<close>

definition idle_only :: "nat \<Rightarrow> InboxMessage list" where
  "idle_only i = (if i = 0 then [example_idle] else [])"

definition protocol_only :: "nat \<Rightarrow> InboxMessage list" where
  "protocol_only i = (if i = 1 then [example_permission_response] else [])"

definition reply_at_third :: "nat \<Rightarrow> InboxMessage list" where
  "reply_at_third i = (if i = 2 then [example_permission_response, example_reply] else [])"

definition reply_at_fourth :: "nat \<Rightarrow> InboxMessage list" where
  "reply_at_fourth i = (if i = 3 then [example_reply] else [])"

definition example_opts :: "ReceiveOptions option" where
  "example_opts = Some \<lparr>ro_timeout = Some 2000, ro_pollInterval = Some 500, ro_all = None\<rparr>"

definition short_opts :: "ReceiveOptions option" where
  "short_opts = Some \<lparr>ro_timeout = Some 1501, ro_pollInterval = Some 500, ro_all = None\<rparr>"

text \<open>The readings of a clock during a call that starts at midnight of 2026-01-01 (UTC):
  the first loop test is one millisecond after the start, and a poll with its sleep of
  500 ms takes 501 ms, so the loop tests read 1, 502, 1003, 1504, 2005, ... ms after the
  start.\<close>

definition example_clock :: "nat \<Rightarrow> int" where
  "example_clock i = 1767225600000 + (if i = 0 then 0 else 501 * int i - 500)"

definition example_task :: TaskInput where
  "example_task =
     \<lparr>in_subject = ''Build feature'', in_description = ''Build the new feature'',
      in_activeForm = None, in_owner = Some ''worker1'', in_status = None, in_blocks = None,
      in_blockedBy = None\<rparr>"

definition example_spawn :: SpawnAgentOptions where
  "example_spawn =
     \<lparr>so_name = ''w1'', so_type = None, so_model = Some ''sonnet'', so_cwd = None,
      so_permissions = None, so_permissionMode = None,
      so_env = Some [(''API_TIMEOUT_MS'', ''9000''), (''E2E'', ''1'')]\<rparr>"

definition example_calls :: "call list" where
  "example_calls =
     [CreateTask example_task, DeleteTask ''1'', CreateTask (example_task\<lparr>in_owner := None\<rparr>),
      SendMessage ''worker1'' ''hello'', AssignTask ''2'' ''worker1'',
      CreateTask example_task]"

definition example_calls_keep :: "call list" where
  "example_calls_keep =
     [CreateTask example_task,
      UpdateTask ''1'' \<lparr>up_subject = None, up_description = None, up_activeForm = None,
                        up_owner = None, up_status = Some in_progress, up_blocks = None,
                        up_blockedBy = None\<rparr>,
      CreateTask (example_task\<lparr>in_owner := None\<rparr>)]"

definition example_plan_request :: InboxMessage where
  "example_plan_request =
     \<lparr>msg_from = ''w1'',
      msg_text = JSON_stringify
        [(''type'', JString ''plan_approval_request''), (''requestId'', JString ''plan-1''),
         (''from'', JString ''w1''), (''planContent'', JString ''1. read 2. edit''),
         (''timestamp'', JString ''2026-01-01T00:00:00.000Z'')],
      msg_timestamp = ''2026-01-01T00:00:00.000Z'', msg_summary = None\<rparr>"

text \<open>A mailbox whose only traffic is a plan approval request.\<close>

definition request_only :: "nat \<Rightarrow> InboxMessage list" where
  "request_only i = (if i = 0 then [example_plan_request] else [])"

text \<open>The mailbox of an agent in the team of the session's controller.\<close>

definition state_inbox :: "ApiState \<Rightarrow> string \<Rightarrow> InboxMessage list" where
  "state_inbox state agent =
     (case controller state of
        None \<Rightarrow> []
      | Some ctrl \<Rightarrow> readInbox (teamName ctrl) agent (inboxes ctrl))"

definition example_message_body :: SendMessageBody where
  "example_message_body = \<lparr>mb_message = Some ''hi'', mb_summary = None\<rparr>"

definition example_spawn_body :: SpawnAgentBody where
  "example_spawn_body =
     \<lparr>sb_name = Some ''../controller'', sb_type = None, sb_model = None, sb_cwd = None,
      sb_permissions = None, sb_env = None\<rparr>"

definition example_plan_body :: ApprovePlanBody where
  "example_plan_body = \<lparr>pb_requestId = Some ''plan-xyz'', pb_approve = None, pb_feedback = None\<rparr>"

section \<open>Properties of the Action Tracker\<close>

lemma fold_purge_step:
  "fold (purge_step a) es m =
     filter (\<lambda>e. fst e \<notin> fst ` {e' \<in> set es. pa_agent (snd e') = a}) m"
proof (induction es arbitrary: m)
  case Nil
  show ?case by simp
next
  case (Cons x es)
  show ?case
  proof (cases "pa_agent (snd x) = a")
    case True
    then have "purge_step a x m = filter (\<lambda>e. fst e \<noteq> fst x) m"
      by (auto simp: purge_step_def AList.delete_eq intro!: filter_cong)
    with True show ?thesis
      by (auto simp: Cons.IH intro!: filter_cong)
  next
    case False
    then have "purge_step a x m = m"
      by (simp add: purge_step_def)
    with False show ?thesis
      by (auto simp: Cons.IH intro!: filter_cong)
  qed
qed

lemma purge_all:
  assumes "distinct (map fst m)"
  shows "fold (purge_step a) m m = filter (\<lambda>e. pa_agent (snd e) \<noteq> a) m"
proof -
  have "fst e \<in> fst ` {e' \<in> set m. pa_agent (snd e') = a} \<longleftrightarrow> pa_agent (snd e) = a"
    if "e \<in> set m" for e
  proof
    assume "fst e \<in> fst ` {e' \<in> set m. pa_agent (snd e') = a}"
    then obtain e' where e': "e' \<in> set m" "pa_agent (snd e') = a" "fst e' = fst e"
      by auto
    from assms that e'(1,3) have "e' = e"
      by (metis eq_key_imp_eq_value prod.collapse)
    with e'(2) show "pa_agent (snd e) = a" by simp
  next
    assume "pa_agent (snd e) = a"
    with that show "fst e \<in> fst ` {e' \<in> set m. pa_agent (snd e') = a}" by auto
  qed
  then show ?thesis
    unfolding fold_purge_step by (intro filter_cong) auto
qed

text \<open>Every handler keeps the maps free of duplicate keys, so the invariant holds in every
  state the tracker reaches from \<open>new_ActionTracker\<close>.\<close>

lemma tracker_ok_new: "tracker_ok new_ActionTracker"
  by (simp add: tracker_ok_def new_ActionTracker_def)

lemma tracker_ok_handlers:
  assumes "tracker_ok t"
  shows "tracker_ok (onPlan a p t)" "tracker_ok (onPermission a q t)"
    "tracker_ok (onIdle now a t)" "tracker_ok (onMessage a t)" "tracker_ok (onSpawned a t)"
    "tracker_ok (registerAgentType a ty t)" "tracker_ok (resolveApproval r t)"
  using assms
  by (simp_all add: tracker_ok_def onPlan_def onPermission_def onIdle_def onMessage_def
      onSpawned_def registerAgentType_def resolveApproval_def
      distinct_update distinct_delete)

lemma tracker_ok_onExited:
  assumes "tracker_ok t"
  shows "tracker_ok (onExited a t)"
  using assms
  by (simp add: tracker_ok_def onExited_def purge_all distinct_delete distinct_map_filter)

text \<open>
  Claim C6. When the controller emits \<open>agent:exited\<close> for an agent \<open>A\<close>, with whatever
  exit code, the snapshot of pending approvals loses exactly the approvals whose agent
  field is \<open>A\<close>: what remains is the old snapshot, in its order, filtered to the other
  agents, each entry unchanged. The idle map loses the entry keyed \<open>A\<close> and keeps every
  other entry; the agent types are untouched.
\<close>

theorem onExited_purges_agent:
  assumes "tracker_ok t"
  shows "getPendingApprovals (handle_event now (agent_exited A code) t)
           = filter (\<lambda>p. pa_agent p \<noteq> A) (getPendingApprovals t)
       \<and> idles (handle_event now (agent_exited A code) t) = filter (\<lambda>e. fst e \<noteq> A) (idles t)
       \<and> agentTypes (handle_event now (agent_exited A code) t) = agentTypes t"
  using assms
  by (simp add: onExited_def getPendingApprovals_def tracker_ok_def purge_all filter_map
      comp_def AList.delete_eq case_prod_unfold eq_commute [of A])

theorem onExited_purges_agent_witness:
  "tracker_ok example_tracker
   \<and> map pa_requestId (getPendingApprovals example_tracker) = [''plan-stale'', ''perm-1'']
   \<and> map pa_requestId (getPendingApprovals
         (handle_event ''2026-01-01T00:00:03.000Z'' (agent_exited ''deadagent'' (Some 1))
            example_tracker)) = [''perm-1'']
   \<and> getIdleAgents
         (handle_event ''2026-01-01T00:00:03.000Z'' (agent_exited ''deadagent'' (Some 1))
            example_tracker) = []"
proof -
  have ok: "tracker_ok example_tracker"
    by (simp add: example_tracker_def tracker_ok_new tracker_ok_handlers)
  have snap: "map pa_requestId (getPendingApprovals example_tracker) = [''plan-stale'', ''perm-1'']"
    by (simp add: example_tracker_def getPendingApprovals_def onIdle_def onPermission_def
        onPlan_def new_ActionTracker_def)
  have agents: "map pa_agent (getPendingApprovals example_tracker) = [''deadagent'', ''w2'']"
    by (simp add: example_tracker_def getPendingApprovals_def onIdle_def onPermission_def
        onPlan_def new_ActionTracker_def)
  have idle: "map fst (idles example_tracker) = [''deadagent'']"
    by (simp add: example_tracker_def onIdle_def onPermission_def onPlan_def
        new_ActionTracker_def)
  from agents snap obtain p q where pq: "getPendingApprovals example_tracker = [p, q]"
    "pa_agent p = ''deadagent''" "pa_agent q = ''w2''" "pa_requestId q = ''perm-1''"
    by (cases "getPendingApprovals example_tracker") auto
  from idle obtain e where e: "idles example_tracker = [e]" "fst e = ''deadagent''"
    by (cases "idles example_tracker") auto
  from onExited_purges_agent [OF ok, where A = "''deadagent''" and code = "Some 1"
      and now = "''2026-01-01T00:00:03.000Z''"] pq e ok snap
  show ?thesis
    by (simp add: getIdleAgents_def)
qed

section \<open>Properties of the JavaScript values\<close>

subsection \<open>Decimal rendering is injective\<close>

lemma digit_value_char: "d < 10 \<Longrightarrow> digit_value (digit_char d) = d"
proof -
  assume "d < 10"
  then have "d = 0 \<or> d = 1 \<or> d = 2 \<or> d = 3 \<or> d = 4 \<or> d = 5 \<or> d = 6 \<or> d = 7
    \<or> d = 8 \<or> d = 9" by arith
  then show ?thesis
    by (elim disjE) (simp_all add: digit_value_def digit_char_def)
qed

lemma parseInt_toString: "parseInt (Number_toString n) = n"
proof (induction n rule: Number_toString.induct)
  case (1 n)
  show ?case
  proof (cases "n < 10")
    case True
    then show ?thesis
      by (subst Number_toString.simps) (simp add: parseInt_def digit_value_char)
  next
    case False
    have "parseInt (Number_toString n) = parseInt (Number_toString (n div 10)) * 10 + n mod 10"
      using False
      by (subst Number_toString.simps) (simp add: parseInt_def digit_value_char)
    with 1 False show ?thesis by simp
  qed
qed

lemma Number_toString_inj: "Number_toString m = Number_toString n \<longleftrightarrow> m = n"
  by (metis parseInt_toString)

subsection \<open>Parsing what was stringified\<close>

lemma unhex_hexdigit: "n < 16 \<Longrightarrow> unhex (hexdigit n) = Some n"
  by (auto simp: unhex_def hexdigit_def Let_def)

lemma hex4_low:
  assumes "n < 32"
  shows "hex4 (CHR ''0'') (CHR ''0'') (hexdigit (n div 16)) (hexdigit (n mod 16)) = Some n"
proof -
  have z: "unhex (CHR ''0'') = Some 0" by (simp add: unhex_def)
  have "n div 16 < 16" using assms by simp
  then have a: "unhex (hexdigit (n div 16)) = Some (n div 16)" by (rule unhex_hexdigit)
  have b: "unhex (hexdigit (n mod 16)) = Some (n mod 16)" by (rule unhex_hexdigit) simp
  show ?thesis by (simp add: hex4_def z a b)
qed

lemma unquote_quote_char:
  "unquote (quote_char c @ rest) = cons_result c (unquote rest)"
proof -
  consider "c = CHR 0x22" | "c = CHR 0x5C" | "c = CHR 0x08" | "c = CHR 0x0C" | "c = CHR 0x0A"
    | "c = CHR 0x0D" | "c = CHR 0x09"
    | (ctl) "c \<notin> {CHR 0x22, CHR 0x5C, CHR 0x08, CHR 0x0C, CHR 0x0A, CHR 0x0D, CHR 0x09}"
        "(of_char c :: nat) < 32"
    | (lit) "c \<notin> {CHR 0x22, CHR 0x5C, CHR 0x08, CHR 0x0C, CHR 0x0A, CHR 0x0D, CHR 0x09}"
        "\<not> (of_char c :: nat) < 32"
    by blast
  then show ?thesis
  proof cases
    case ctl
    have "hex4 (CHR ''0'') (CHR ''0'') (hexdigit (of_char c div 16)) (hexdigit (of_char c mod 16))
        = Some (of_char c)"
      using ctl(2) by (rule hex4_low)
    moreover have "(of_char c :: nat) < 256" using ctl(2) by simp
    ultimately show ?thesis using ctl
      by (simp add: quote_char_def)
  next
    case lit
    then show ?thesis by (simp add: quote_char_def)
  qed (simp_all add: quote_char_def unescape_def)
qed

lemma unquote_concat:
  "unquote (concat (map quote_char s) @ CHR 0x22 # rest) = Some (s, rest)"
  by (induction s) (simp_all add: unquote_quote_char cons_result_def)

lemma parse_scalar_stringify:
  "parse_scalar (stringify_scalar v @ rest) = Some (v, rest)"
proof (cases v)
  case (JString s)
  then show ?thesis
    using unquote_concat [of s rest] by (simp add: parse_scalar_def QuoteJSONString_def)
next
  case (JBool b)
  then show ?thesis by (simp add: parse_scalar_def)
next
  case JNull
  then show ?thesis by (simp add: parse_scalar_def)
qed

lemma skip_ws_scalar: "skip_ws (stringify_scalar v @ rest) = stringify_scalar v @ rest"
  by (cases v) (simp_all add: skip_ws_def is_ws_def QuoteJSONString_def)

lemma skip_ws_punct:
  "skip_ws (CHR '':'' # r) = CHR '':'' # r" "skip_ws (CHR '','' # r) = CHR '','' # r"
  "skip_ws (CHR ''}'' # r) = CHR ''}'' # r" "skip_ws (CHR ''{'' # r) = CHR ''{'' # r"
  "skip_ws [] = []"
  by (simp_all add: skip_ws_def is_ws_def)

lemma parse_member_stringify:
  "parse_member (stringify_member kv @ rest) = Some (kv, rest)"
proof -
  have "skip_ws (stringify_member kv @ rest)
      = CHR 0x22 # (concat (map quote_char (fst kv)) @ CHR 0x22 #
          (CHR '':'' # stringify_scalar (snd kv) @ rest))"
    by (simp add: stringify_member_def skip_ws_def is_ws_def QuoteJSONString_def)
  then show ?thesis
    by (simp add: parse_member_def unquote_concat parse_scalar_stringify skip_ws_punct
        skip_ws_scalar)
qed

lemma parse_members_stringify:
  "obj \<noteq> [] \<Longrightarrow>
   parse_members (join_commas (map stringify_member obj) @ CHR ''}'' # rest) = Some (obj, rest)"
proof (induction obj rule: induct_list012)
  case 1
  then show ?case by simp
next
  case (2 x)
  show ?case
    by (subst parse_members.simps) (simp add: parse_member_stringify skip_ws_punct)
next
  case (3 x y zs)
  have "parse_members (join_commas (map stringify_member (x # y # zs)) @ CHR ''}'' # rest)
      = parse_members (stringify_member x @
          (CHR '','' # join_commas (map stringify_member (y # zs)) @ CHR ''}'' # rest))"
    by simp
  also have "\<dots> = map_option (\<lambda>(kvs, rest). (x # kvs, rest))
       (parse_members (join_commas (map stringify_member (y # zs)) @ CHR ''}'' # rest))"
    by (subst parse_members.simps) (simp add: parse_member_stringify skip_ws_punct)
  also have "\<dots> = Some (x # y # zs, rest)"
    using 3 by simp
  finally show ?case .
qed

lemma fold_update_distinct:
  "distinct (map fst (acc @ kvs)) \<Longrightarrow>
   fold (\<lambda>kv obj. AList.update (fst kv) (snd kv) obj) kvs acc = acc @ kvs"
proof (induction kvs arbitrary: acc)
  case Nil
  then show ?case by simp
next
  case (Cons kv kvs)
  have "AList.update (fst kv) (snd kv) acc = acc @ [kv]"
    using Cons.prems by (induction acc) (auto simp: image_iff)
  with Cons show ?case by simp
qed

lemma JSON_roundtrip:
  assumes "distinct (map fst obj)"
  shows "JSON_parse (JSON_stringify obj) = Some obj"
proof (cases obj)
  case Nil
  then show ?thesis by (simp add: JSON_parse_def JSON_stringify_def skip_ws_punct)
next
  case (Cons kv kvs)
  let ?body = "join_commas (map stringify_member obj)"
  have pm: "parse_members (?body @ ''}'') = Some (obj, [])"
    using parse_members_stringify [of obj "[]"] Cons by simp
  have "?body \<noteq> []" "hd ?body = CHR 0x22"
    using Cons by (cases kvs; simp add: stringify_member_def QuoteJSONString_def)+
  then obtain b where b: "?body = CHR 0x22 # b" by (cases ?body) auto
  have sk: "skip_ws (?body @ ''}'') = CHR 0x22 # b @ ''}''"
    by (simp add: b skip_ws_def is_ws_def)
  have "fold (\<lambda>kv obj. AList.update (fst kv) (snd kv) obj) obj [] = obj"
    using fold_update_distinct [of "[]" obj] assms by simp
  then show ?thesis
    using pm sk by (simp add: JSON_parse_def JSON_stringify_def skip_ws_punct)
qed

text \<open>A typed envelope written by \<open>JSON.stringify\<close> classifies back to the same object.\<close>

lemma parseMessage_stringify:
  assumes "msg_text m = JSON_stringify obj" "distinct (map fst obj)"
    and "map_of obj ''type'' = Some (JString t)" "t \<in> set RECOGNIZED_TYPES"
  shows "parseMessage m = obj"
  using assms JSON_roundtrip [OF assms(2)] by (simp add: parseMessage_def)

lemma classify_plain:
  assumes "JSON_parse (msg_text m) = None"
  shows "classify m = ''plain_text''"
  using assms by (simp add: classify_def parseMessage_def plain_text_def parsed_type_def
      string_field_def)

section \<open>Properties of the controller\<close>

subsection \<open>The example controller\<close>

lemma example_controller0_simps:
  "teamName example_controller0 = ''my-team_01''"
  "initialized example_controller0 = False"
  "team example_controller0 = None"
  "defaultEnv example_controller0 =
     [(''ANTHROPIC_BASE_URL'', ''https://example.test''), (''API_TIMEOUT_MS'', ''3000'')]"
  "processes example_controller0 = []"
  "tasks example_controller0 = \<lparr>tk_dir = False, tk_created = 0, tk_files = []\<rparr>"
  "inboxes example_controller0 = (\<lambda>key. [])"
  by (simp_all add: example_controller0_def new_Controller_def or_default_def nonempty_def)

lemma init_example: "init ''session-1'' example_controller0 = (Inr (), example_controller)"
  by (simp add: example_controller_def init_def example_controller0_simps TeamManager_create_def)

lemma example_controller_simps:
  "teamName example_controller = ''my-team_01''"
  "initialized example_controller"
  "team example_controller = Some \<lparr>cfg_name = ''my-team_01'', cfg_sessionId = ''session-1'',
      cfg_cwd = cwd example_controller0, cfg_members = []\<rparr>"
  "defaultEnv example_controller =
     [(''ANTHROPIC_BASE_URL'', ''https://example.test''), (''API_TIMEOUT_MS'', ''3000'')]"
  "processes example_controller = []"
  "tasks example_controller = \<lparr>tk_dir = True, tk_created = 0, tk_files = []\<rparr>"
  "inboxes example_controller = (\<lambda>key. [])"
  by (simp_all add: example_controller_def init_def example_controller0_simps
      TeamManager_create_def TaskManager_init_def)

subsection \<open>Initialization\<close>

text \<open>
  Claim C7. \<open>init\<close> on a controller that is already initialized changes nothing and
  returns the controller: the team's configuration, the task ledger, the poller and every
  other part of the state are the ones before the call. In particular a second \<open>init\<close>
  after a successful first one is such a call.
\<close>

theorem init_idempotent:
  "(initialized c \<longrightarrow> init sid' c = (Inr (), c))
   \<and> (init sid c0 = (Inr (), c) \<longrightarrow> init sid' c = (Inr (), c))"
proof -
  have a: "init sid' c = (Inr (), c)" if "initialized c" for c
    using that by (simp add: init_def)
  have b: "initialized c" if "init sid c0 = (Inr (), c)"
    using that
    by (cases "initialized c0")
       (auto simp: init_def TeamManager_create_def split: option.splits)
  from a b show ?thesis by blast
qed

theorem init_idempotent_witness:
  "initialized example_controller
   \<and> init ''session-1'' example_controller0 = (Inr (), example_controller)
   \<and> init ''session-2'' example_controller = (Inr (), example_controller)"
  using init_idempotent [of example_controller "''session-2''" "''session-1''" example_controller0]
    init_example example_controller_simps(2)
  by simp

subsection \<open>The initialization guard\<close>

lemma not_initialized_shutdown: "\<not> initialized (shutdown now_ms now c)"
  by (simp add: shutdown_def Let_def TeamManager_destroy_def)

text \<open>
  Claim C9. On a controller whose \<open>initialized\<close> flag is not set, \<open>spawnAgent\<close>, \<open>send\<close>,
  \<open>broadcast\<close> and \<open>createTask\<close> each throw the error "Controller not initialized. Call
  init() first." and leave the whole state, registry, mailboxes and ledger included, as it
  was. The flag is not set before \<open>init\<close> has completed, and \<open>shutdown\<close> clears it.
\<close>

theorem uninitialized_calls_throw:
  assumes "\<not> initialized c"
  shows "spawnAgent joinedAt pid opts c
           = (Inl (Error ''Controller not initialized. Call init() first.''), c)
       \<and> send now agentName msg summary c
           = (Inl (Error ''Controller not initialized. Call init() first.''), c)
       \<and> broadcast now msg summary c
           = (Inl (Error ''Controller not initialized. Call init() first.''), c)
       \<and> createTask now task c
           = (Inl (Error ''Controller not initialized. Call init() first.''), c)
       \<and> \<not> initialized (shutdown now_ms now c')"
  using assms
  by (simp add: spawnAgent_def send_def broadcast_def createTask_def ensureInitialized_def
      not_initialized_shutdown)

theorem uninitialized_calls_throw_witness:
  "\<not> initialized example_controller0
   \<and> send ''t'' ''w1'' ''hello'' None example_controller0
        = (Inl (Error ''Controller not initialized. Call init() first.''), example_controller0)
   \<and> createTask ''t'' example_task (shutdown 0 ''t'' example_controller)
        = (Inl (Error ''Controller not initialized. Call init() first.''),
           shutdown 0 ''t'' example_controller)"
proof -
  have n: "\<not> initialized example_controller0"
    by (simp add: example_controller0_simps)
  from uninitialized_calls_throw [OF n, where now_ms = 0 and now = "''t''"
      and c' = example_controller]
  have s: "\<not> initialized (shutdown 0 ''t'' example_controller)" by simp
  from uninitialized_calls_throw [OF n, where now = "''t''" and agentName = "''w1''"
      and msg = "''hello''" and summary = None]
    uninitialized_calls_throw [OF s, where now = "''t''" and task = example_task] n
  show ?thesis by simp
qed

subsection \<open>The environment of a spawned agent\<close>

lemma map_of_fold_update:
  "distinct (map fst xs) \<Longrightarrow>
   map_of (fold (\<lambda>kv obj. AList.update (fst kv) (snd kv) obj) xs acc) = map_of acc ++ map_of xs"
proof (induction xs arbitrary: acc)
  case Nil
  then show ?case by simp
next
  case (Cons x xs)
  then have "fst x \<notin> dom (map_of xs)"
    by (simp add: dom_map_of_conv_image_fst)
  then have "map_of xs (fst x) = None" by blast
  with Cons show ?case
    by (auto simp: update_conv' map_add_def fun_eq_iff split: option.splits)
qed

lemma map_of_spread:
  assumes "distinct (map fst a)" "case b of None \<Rightarrow> True | Some e \<Rightarrow> distinct (map fst e)"
  shows "map_of (spread a b) = map_of a ++ (case b of None \<Rightarrow> Map.empty | Some e \<Rightarrow> map_of e)"
  using assms
  by (cases b) (simp_all add: spread_def map_of_fold_update)

lemma spawn_env_entry:
  assumes "distinct (map fst (defaultEnv c))"
    "case so_env opts of None \<Rightarrow> True | Some e \<Rightarrow> distinct (map fst e)"
  shows "env_entry (spawn_env c opts) k =
     (case env_entry (so_env opts) k of
        Some v \<Rightarrow> Some v
      | None \<Rightarrow> map_of (defaultEnv c) k)"
proof (cases "length (map fst (defaultEnv c)) > 0 \<or> so_env opts \<noteq> None")
  case True
  then show ?thesis
    using map_of_spread [OF assms]
    by (auto simp: spawn_env_def env_entry_def map_add_def split: option.splits)
next
  case False
  then show ?thesis
    by (simp add: spawn_env_def env_entry_def)
qed

lemma spawnAgent_process:
  assumes "spawnAgent joinedAt pid opts c = (Inr h, c')"
  shows "\<exists>p. map_of (processes c') (so_name opts) = Some p \<and> proc_running p
           \<and> sp_env (proc_spec p) = spawn_env c opts"
proof -
  from assms have i: "initialized c"
    by (auto simp: spawnAgent_def ensureInitialized_def split: if_splits)
  from assms i obtain t where t: "TeamManager_addMember (teamName c)
      \<lparr>tm_agentId = so_name opts @ ''@'' @ teamName c, tm_name = so_name opts,
       tm_agentType = or_default (so_type opts) ''general-purpose'',
       tm_model = so_model opts, tm_joinedAt = joinedAt,
       tm_tmuxPaneId = [], tm_cwd = or_default (so_cwd opts) (cwd c), tm_subscriptions = []\<rparr>
      (team c) = (Inr (), t)"
    by (auto simp: spawnAgent_def ensureInitialized_def Let_def split: prod.splits sum.splits)
  have nr: "\<not> ProcessManager_isRunning (so_name opts) (processes c)"
    using assms i t
    by (auto simp: spawnAgent_def ensureInitialized_def Let_def ProcessManager_spawn_def
        split: prod.splits sum.splits if_splits)
  have env: "spawn_env (c\<lparr>colorIndex := n, team := t\<rparr>) opts = spawn_env c opts" for n
    by (simp add: spawn_env_def)
  show ?thesis
    using assms i t nr
    by (auto simp: spawnAgent_def ensureInitialized_def Let_def ProcessManager_spawn_def
        ProcessManager_onExit_def update_conv' env)
qed

text \<open>When \<open>spawnAgent\<close> succeeds: on an initialized controller whose team exists and has
  no live process of that name.\<close>

lemma spawnAgent_succeeds:
  assumes "initialized c" "team c = Some cfg"
    "\<not> ProcessManager_isRunning (so_name opts) (processes c)"
  shows "\<exists>h c'. spawnAgent joinedAt pid opts c = (Inr h, c')"
  using assms
  by (simp add: spawnAgent_def ensureInitialized_def Let_def TeamManager_addMember_def
      ProcessManager_spawn_def)

text \<open>
  Claim C8. On an initialized controller whose team exists and has no live process of the
  agent's name, \<open>spawnAgent\<close> succeeds, and it launches the process with the merge of the
  controller-wide default environment and the per-spawn environment: looking a key up in
  the environment of the launched process gives the per-spawn value when the per-spawn
  environment has the key, and otherwise what the defaults have under it. (An environment
  is a JavaScript object, one value per key. When the defaults are empty and no per-spawn
  environment is given, no environment is passed and every lookup is empty.)
\<close>

theorem spawnAgent_env_merge:
  assumes "initialized c" and "team c = Some cfg"
    and "\<not> ProcessManager_isRunning (so_name opts) (processes c)"
    and "distinct (map fst (defaultEnv c))"
    and "case so_env opts of None \<Rightarrow> True | Some e \<Rightarrow> distinct (map fst e)"
  shows "\<exists>h c' p. spawnAgent joinedAt pid opts c = (Inr h, c')
           \<and> map_of (processes c') (so_name opts) = Some p \<and> proc_running p
           \<and> (\<forall>k. env_entry (sp_env (proc_spec p)) k =
                 (case env_entry (so_env opts) k of
                    Some v \<Rightarrow> Some v
                  | None \<Rightarrow> map_of (defaultEnv c) k))"
proof -
  from spawnAgent_succeeds [OF assms(1,2,3)] obtain h c' where
    s: "spawnAgent joinedAt pid opts c = (Inr h, c')"
    by blast
  from spawnAgent_process [OF s] obtain p where
    p: "map_of (processes c') (so_name opts) = Some p" "proc_running p"
      "sp_env (proc_spec p) = spawn_env c opts"
    by blast
  from spawn_env_entry [OF assms(4,5)] p(3)
  have "\<forall>k. env_entry (sp_env (proc_spec p)) k =
                 (case env_entry (so_env opts) k of
                    Some v \<Rightarrow> Some v
                  | None \<Rightarrow> map_of (defaultEnv c) k)"
    by simp
  with s p(1,2) show ?thesis by blast
qed

theorem spawnAgent_env_merge_witness:
  "\<exists>h c' p. spawnAgent 1000 (Some 4242) example_spawn example_controller = (Inr h, c')
     \<and> map_of (processes c') ''w1'' = Some p
     \<and> env_entry (sp_env (proc_spec p)) ''API_TIMEOUT_MS'' = Some ''9000''
     \<and> env_entry (sp_env (proc_spec p)) ''ANTHROPIC_BASE_URL'' = Some ''https://example.test''
     \<and> env_entry (sp_env (proc_spec p)) ''E2E'' = Some ''1''
     \<and> env_entry (sp_env (proc_spec p)) ''HOME'' = None"
proof -
  have r: "\<not> ProcessManager_isRunning (so_name example_spawn) (processes example_controller)"
    by (simp add: example_controller_simps ProcessManager_isRunning_def)
  have d1: "distinct (map fst (defaultEnv example_controller))"
    by (simp add: example_controller_simps)
  have d2: "case so_env example_spawn of None \<Rightarrow> True | Some e \<Rightarrow> distinct (map fst e)"
    by (simp add: example_spawn_def)
  from spawnAgent_env_merge [OF example_controller_simps(2,3) r d1 d2, of 1000 "Some 4242"]
  obtain h c' p where
    s: "spawnAgent 1000 (Some 4242) example_spawn example_controller = (Inr h, c')"
    and p: "map_of (processes c') (so_name example_spawn) = Some p"
    and e: "\<And>k. env_entry (sp_env (proc_spec p)) k =
              (case env_entry (so_env example_spawn) k of
                 Some v \<Rightarrow> Some v
               | None \<Rightarrow> map_of (defaultEnv example_controller) k)"
    by blast
  have n: "so_name example_spawn = ''w1''" by (simp add: example_spawn_def)
  have "env_entry (sp_env (proc_spec p)) ''API_TIMEOUT_MS'' = Some ''9000''"
    "env_entry (sp_env (proc_spec p)) ''ANTHROPIC_BASE_URL'' = Some ''https://example.test''"
    "env_entry (sp_env (proc_spec p)) ''E2E'' = Some ''1''"
    "env_entry (sp_env (proc_spec p)) ''HOME'' = None"
    unfolding e by (simp_all add: example_spawn_def env_entry_def example_controller_simps)
  with s p n show ?thesis by auto
qed

section \<open>Properties of task creation\<close>

subsection \<open>The ledger's invariant\<close>

lemma keys_update: "fst ` set (AList.update k v al) = insert k (fst ` set al)"
  by (induction al) auto

lemma length_alist_update:
  "length (AList.update k v al) = (if k \<in> fst ` set al then length al else Suc (length al))"
  by (induction al) auto

lemma keys_delete: "fst ` set (AList.delete k al) = fst ` set al - {k}"
  by (induction al) auto

lemma new_id_fresh:
  assumes "ledger_ok tm"
  shows "Number_toString (tk_created tm + 1) \<notin> fst ` set (tk_files tm)"
proof
  assume "Number_toString (tk_created tm + 1) \<in> fst ` set (tk_files tm)"
  with assms obtain j where "j \<in> {1..tk_created tm}"
    "Number_toString (tk_created tm + 1) = Number_toString j"
    unfolding ledger_ok_def by blast
  then show False by (simp add: Number_toString_inj)
qed

lemma ledger_ok_create:
  assumes "ledger_ok tm"
  shows "ledger_ok (snd (TaskManager_create task tm))"
    and "length (tk_files (snd (TaskManager_create task tm))) = Suc (length (tk_files tm))"
    and "tk_created (snd (TaskManager_create task tm)) = Suc (tk_created tm)"
    and "fst (TaskManager_create task tm) = Number_toString (Suc (tk_created tm))"
proof -
  note fresh = new_id_fresh [OF assms]
  show "ledger_ok (snd (TaskManager_create task tm))"
    using assms fresh
    by (auto simp: ledger_ok_def TaskManager_create_def Let_def distinct_update
        keys_update atLeastAtMostSuc_conv)
  show "length (tk_files (snd (TaskManager_create task tm))) = Suc (length (tk_files tm))"
    using fresh by (simp add: TaskManager_create_def Let_def length_alist_update)
  show "tk_created (snd (TaskManager_create task tm)) = Suc (tk_created tm)"
    by (simp add: TaskManager_create_def Let_def)
  show "fst (TaskManager_create task tm) = Number_toString (Suc (tk_created tm))"
    by (simp add: TaskManager_create_def Let_def)
qed

lemma ledger_ok_update:
  assumes "ledger_ok tm"
  shows "ledger_ok (snd (TaskManager_update i p tm))"
    and "length (tk_files (snd (TaskManager_update i p tm))) = length (tk_files tm)"
    and "tk_created (snd (TaskManager_update i p tm)) = tk_created tm"
proof -
  have k: "map_of (tk_files tm) i = Some f \<Longrightarrow> i \<in> fst ` set (tk_files tm)" for f
    by (metis map_of_SomeD fst_conv image_eqI)
  show "ledger_ok (snd (TaskManager_update i p tm))"
    using assms k
    by (auto simp: ledger_ok_def TaskManager_update_def distinct_update keys_update
        split: option.splits)
  show "length (tk_files (snd (TaskManager_update i p tm))) = length (tk_files tm)"
    using k by (auto simp: TaskManager_update_def length_alist_update split: option.splits)
  show "tk_created (snd (TaskManager_update i p tm)) = tk_created tm"
    by (simp add: TaskManager_update_def split: option.splits)
qed

lemma ledger_ok_delete:
  assumes "ledger_ok tm"
  shows "ledger_ok (TaskManager_delete i tm)"
    and "tk_created (TaskManager_delete i tm) = tk_created tm"
  using assms
  by (auto simp: ledger_ok_def TaskManager_delete_def distinct_delete keys_delete)

subsection \<open>One call\<close>

lemma TaskManager_get_created:
  assumes "TaskManager_create task tm = (taskId, tm')"
  shows "\<exists>file. TaskManager_get taskId tm' = Inr file \<and> task_subject file = in_subject task
           \<and> task_id file = taskId"
  using assms
  by (auto simp: TaskManager_create_def TaskManager_get_def Let_def update_conv')

lemma createTask_initialized:
  assumes "initialized c"
  shows "\<exists>c'. createTask now task c = (Inr (fst (TaskManager_create task (tasks c))), c')
           \<and> tasks c' = snd (TaskManager_create task (tasks c)) \<and> initialized c'"
proof -
  obtain taskId tm where cr: "TaskManager_create task (tasks c) = (taskId, tm)"
    by (cases "TaskManager_create task (tasks c)")
  from TaskManager_get_created [OF cr]
  have g: "\<exists>file. TaskManager_get taskId tm = Inr file" by blast
  show ?thesis
    using assms cr g
    by (auto simp: createTask_def ensureInitialized_def send_def Let_def split: option.splits)
qed

lemma apply_call_create:
  assumes "initialized c"
  shows "fst (apply_call now (CreateTask task) c) = Some (fst (TaskManager_create task (tasks c)))"
    and "tasks (snd (apply_call now (CreateTask task) c)) = snd (TaskManager_create task (tasks c))"
    and "initialized (snd (apply_call now (CreateTask task) c))"
  using createTask_initialized [OF assms, of now task] by auto

lemma assignTask_effect:
  "tasks (snd (assignTask now i a c)) = snd (TaskManager_update i
      \<lparr>up_subject = None, up_description = None, up_activeForm = None,
       up_owner = Some a, up_status = None, up_blocks = None, up_blockedBy = None\<rparr> (tasks c))"
  "initialized (snd (assignTask now i a c)) = initialized c"
  by (auto simp: assignTask_def send_def ensureInitialized_def split: prod.splits sum.splits)

lemma send_effect:
  "tasks (snd (send now a m s c)) = tasks c"
  "initialized (snd (send now a m s c)) = initialized c"
  by (auto simp: send_def ensureInitialized_def)

lemma apply_call_other:
  assumes "\<not> is_create x" "ledger_ok (tasks c)"
  shows "fst (apply_call now x c) = None"
    and "initialized (snd (apply_call now x c)) = initialized c"
    and "ledger_ok (tasks (snd (apply_call now x c)))"
    and "tk_created (tasks (snd (apply_call now x c))) = tk_created (tasks c)"
    and "\<not> is_delete x \<Longrightarrow>
           length (tk_files (tasks (snd (apply_call now x c)))) = length (tk_files (tasks c))"
  using assms
  by (cases x; simp add: assignTask_effect send_effect ledger_ok_update ledger_ok_delete)+

subsection \<open>Any sequence of calls\<close>

lemma run_ops_ids:
  assumes "initialized c" "ledger_ok (tasks c)"
  shows "fst (run_ops now ops c)
           = map Number_toString [Suc (tk_created (tasks c)) ..<
               Suc (tk_created (tasks c)) + length (filter is_create ops)]
       \<and> ((\<forall>x\<in>set ops. \<not> is_delete x) \<longrightarrow>
            length (tk_files (tasks (snd (run_ops now ops c))))
              = length (tk_files (tasks c)) + length (filter is_create ops))"
  using assms
proof (induction ops arbitrary: c)
  case Nil
  then show ?case by simp
next
  case (Cons x xs)
  let ?k = "tk_created (tasks c)"
  let ?n = "length (filter is_create xs)"
  obtain r c' where a: "apply_call now x c = (r, c')" by (cases "apply_call now x c")
  obtain ids c'' where b: "run_ops now xs c' = (ids, c'')" by (cases "run_ops now xs c'")
  show ?case
  proof (cases "is_create x")
    case True
    then obtain task where x: "x = CreateTask task" by (cases x) auto
    from apply_call_create [OF Cons.prems(1), of now task] a x
    have r: "r = Some (fst (TaskManager_create task (tasks c)))"
      and t: "tasks c' = snd (TaskManager_create task (tasks c))" and i: "initialized c'"
      by auto
    note lc = ledger_ok_create [OF Cons.prems(2), of task]
    from Cons.IH [OF i, unfolded t, OF lc(1)] b t lc
    have ih: "ids = map Number_toString [Suc (Suc ?k) ..< Suc (Suc ?k) + ?n]"
      and ih2: "(\<forall>x\<in>set xs. \<not> is_delete x) \<longrightarrow>
                  length (tk_files (tasks c'')) = Suc (length (tk_files (tasks c))) + ?n"
      by auto
    have u: "[Suc ?k ..< Suc ?k + Suc ?n] = Suc ?k # [Suc (Suc ?k) ..< Suc (Suc ?k) + ?n]"
      by (subst upt_rec) simp
    have f: "length (filter is_create (x # xs)) = Suc ?n"
      using True by simp
    show ?thesis
      unfolding f u using a b r ih ih2 lc(4)
      by (simp del: upt_Suc)
  next
    case False
    note o = apply_call_other [OF False Cons.prems(2), of now]
    from o a have r: "r = None" and i: "initialized c'" and l: "ledger_ok (tasks c')"
      and k: "tk_created (tasks c') = ?k"
      using Cons.prems(1) by auto
    from Cons.IH [OF i l] b k
    have ih: "ids = map Number_toString [Suc ?k ..< Suc ?k + ?n]"
      and ih2: "(\<forall>x\<in>set xs. \<not> is_delete x) \<longrightarrow>
                  length (tk_files (tasks c'')) = length (tk_files (tasks c')) + ?n"
      by auto
    show ?thesis
      using a b r ih ih2 False o(5)
      by auto
  qed
qed

text \<open>
  Claim C2. On an initialized controller with a fresh ledger, whatever sequence of
  task creations, updates, deletions, assignments and message sends is performed, the
  ids returned by the successive \<open>createTask\<close> calls are the decimal strings of 1, 2, ...,
  one per creation and in this order: as numbers they increase by one each time, and no
  id is returned twice, deletions in between or not. If no task is deleted, the listing at
  the end has exactly as many records as tasks were created.
\<close>

theorem task_ids_sequential:
  assumes "initialized c" "tk_created (tasks c) = 0" "tk_files (tasks c) = []"
  shows "fst (run_ops now ops c) = map Number_toString [1 ..< Suc (length (filter is_create ops))]
       \<and> map parseInt (fst (run_ops now ops c)) = [1 ..< Suc (length (filter is_create ops))]
       \<and> distinct (fst (run_ops now ops c))
       \<and> ((\<forall>x\<in>set ops. \<not> is_delete x) \<longrightarrow>
            length (TaskManager_list (tasks (snd (run_ops now ops c))))
              = length (filter is_create ops))"
proof -
  have ok: "ledger_ok (tasks c)"
    using assms(2,3) by (simp add: ledger_ok_def)
  from run_ops_ids [OF assms(1) ok, of now ops] assms(2,3)
  have ids: "fst (run_ops now ops c)
      = map Number_toString [1 ..< Suc (length (filter is_create ops))]"
    and len: "(\<forall>x\<in>set ops. \<not> is_delete x) \<longrightarrow>
      length (tk_files (tasks (snd (run_ops now ops c)))) = length (filter is_create ops)"
    by simp_all
  have "map parseInt (fst (run_ops now ops c)) = [1 ..< Suc (length (filter is_create ops))]"
    unfolding ids by (simp add: comp_def parseInt_toString del: upt_Suc)
  moreover have "distinct (fst (run_ops now ops c))"
    unfolding ids by (simp add: distinct_map inj_on_def Number_toString_inj del: upt_Suc)
  ultimately show ?thesis
    using ids len by (simp add: TaskManager_list_def)
qed

theorem task_ids_sequential_witness:
  "initialized example_controller
   \<and> fst (run_ops ''t'' example_calls example_controller) = [''1'', ''2'', ''3'']
   \<and> fst (run_ops ''t'' example_calls_keep example_controller) = [''1'', ''2'']
   \<and> length (TaskManager_list (tasks (snd (run_ops ''t'' example_calls_keep example_controller)))) = 2"
proof -
  have i: "initialized example_controller" "tk_created (tasks example_controller) = 0"
    "tk_files (tasks example_controller) = []"
    by (simp_all add: example_controller_simps)
  have n: "length (filter is_create example_calls) = 3"
    "length (filter is_create example_calls_keep) = 2"
    "\<forall>x\<in>set example_calls_keep. \<not> is_delete x"
    by (simp_all add: example_calls_def example_calls_keep_def)
  have s: "map Number_toString [1 ..< Suc 3] = [''1'', ''2'', ''3'']"
    "map Number_toString [1 ..< Suc 2] = [''1'', ''2'']"
    by (simp_all add: upt_conv_Cons Number_toString.simps digit_char_def)
  from task_ids_sequential [OF i, of "''t''" example_calls]
    task_ids_sequential [OF i, of "''t''" example_calls_keep] n s i(1)
  show ?thesis by simp
qed

subsection \<open>The assignment envelope\<close>

lemma task_assignment_parses:
  assumes "msg_text env = task_assignment_msg now taskId tf"
  shows "parseMessage env =
     [(''type'', JString ''task_assignment''), (''taskId'', JString taskId),
      (''subject'', JString (task_subject tf)),
      (''description'', JString (task_description tf)),
      (''assignedBy'', JString ''controller''), (''timestamp'', JString now)]"
proof -
  let ?obj = "[(''type'', JString ''task_assignment''), (''taskId'', JString taskId),
      (''subject'', JString (task_subject tf)),
      (''description'', JString (task_description tf)),
      (''assignedBy'', JString ''controller''), (''timestamp'', JString now)]"
  have t: "msg_text env = JSON_stringify ?obj"
    using assms by (simp add: task_assignment_msg_def object_literal_def map_filter_simps)
  have d: "distinct (map fst ?obj)" by simp
  have ty: "map_of ?obj ''type'' = Some (JString ''task_assignment'')" by simp
  have r: "''task_assignment'' \<in> set RECOGNIZED_TYPES" by (simp add: RECOGNIZED_TYPES_def)
  from parseMessage_stringify [OF t d ty r] show ?thesis .
qed

text \<open>
  Claim C5. On an initialized controller, \<open>createTask\<close> with an owner set (a non-empty
  string) succeeds and appends exactly one envelope to the mailbox of that owner, every
  other mailbox staying as it was; the text of the envelope classifies as a
  \<open>task_assignment\<close> whose \<open>taskId\<close> is the id that \<open>createTask\<close> returns and whose subject
  is the subject of the created task, which is the subject given. With no owner,
  \<open>createTask\<close> succeeds and no mailbox changes.
\<close>

theorem createTask_notifies_owner:
  assumes "initialized c"
  shows "case nonempty (in_owner task) of
           Some owner \<Rightarrow>
             (\<exists>taskId c' env tf.
                createTask now task c = (Inr taskId, c')
              \<and> inboxes c' = (inboxes c)((teamName c, owner) := inboxes c (teamName c, owner) @ [env])
              \<and> msg_from env = ''controller''
              \<and> parsed_type (parseMessage env) = ''task_assignment''
              \<and> string_field ''taskId'' (parseMessage env) = Some taskId
              \<and> string_field ''subject'' (parseMessage env) = Some (task_subject tf)
              \<and> TaskManager_get taskId (tasks c') = Inr tf
              \<and> task_subject tf = in_subject task)
         | None \<Rightarrow>
             (\<exists>taskId c'. createTask now task c = (Inr taskId, c') \<and> inboxes c' = inboxes c)"
proof (cases "nonempty (in_owner task)")
  case None
  with assms show ?thesis
    by (auto simp: createTask_def ensureInitialized_def split: prod.splits)
next
  case (Some owner)
  obtain taskId tm where cr: "TaskManager_create task (tasks c) = (taskId, tm)"
    by (cases "TaskManager_create task (tasks c)")
  from TaskManager_get_created [OF cr] obtain tf where
    g: "TaskManager_get taskId tm = Inr tf" and sj: "task_subject tf = in_subject task"
    by blast
  define env where "env = \<lparr>msg_from = ''controller'',
    msg_text = task_assignment_msg now taskId tf, msg_timestamp = now, msg_summary = None\<rparr>"
  define c' where "c' = c\<lparr>tasks := tm, inboxes := writeInbox (teamName c) owner env (inboxes c)\<rparr>"
  have res: "createTask now task c = (Inr taskId, c')"
    using assms Some cr g
    by (simp add: createTask_def ensureInitialized_def send_def c'_def env_def)
  have box: "inboxes c' = (inboxes c)((teamName c, owner) := inboxes c (teamName c, owner) @ [env])"
    by (simp add: c'_def writeInbox_def)
  have "msg_text env = task_assignment_msg now taskId tf" by (simp add: env_def)
  note p = task_assignment_parses [OF this]
  have "parsed_type (parseMessage env) = ''task_assignment''"
    "string_field ''taskId'' (parseMessage env) = Some taskId"
    "string_field ''subject'' (parseMessage env) = Some (task_subject tf)"
    unfolding p by (simp_all add: parsed_type_def string_field_def)
  moreover have "msg_from env = ''controller''" by (simp add: env_def)
  moreover have "TaskManager_get taskId (tasks c') = Inr tf" using g by (simp add: c'_def)
  ultimately show ?thesis
    using Some res box sj by auto
qed

theorem createTask_notifies_owner_witness:
  "initialized example_controller
   \<and> (\<exists>c' env. createTask ''2026-01-01T00:00:00.000Z'' example_task example_controller = (Inr ''1'', c')
        \<and> readInbox ''my-team_01'' ''worker1'' (inboxes c') = [env]
        \<and> parsed_type (parseMessage env) = ''task_assignment''
        \<and> string_field ''taskId'' (parseMessage env) = Some ''1''
        \<and> string_field ''subject'' (parseMessage env) = Some ''Build feature'')
   \<and> (\<exists>c'. createTask ''2026-01-01T00:00:00.000Z'' (example_task\<lparr>in_owner := None\<rparr>) example_controller
          = (Inr ''1'', c')
        \<and> inboxes c' = inboxes example_controller)"
proof -
  note i = example_controller_simps(2)
  have o: "nonempty (in_owner example_task) = Some ''worker1''"
    "nonempty (in_owner (example_task\<lparr>in_owner := None\<rparr>)) = None"
    "in_subject example_task = ''Build feature''"
    by (simp_all add: example_task_def nonempty_def)
  have id1: "fst (createTask now task example_controller) = Inr ''1''" for now task
    using createTask_initialized [OF i, of now task]
    by (auto simp: TaskManager_create_def Let_def example_controller_simps
        Number_toString.simps digit_char_def)
  from createTask_notifies_owner [OF i, where task = example_task
      and now = "''2026-01-01T00:00:00.000Z''"] o
    id1 [of "''2026-01-01T00:00:00.000Z''" example_task]
  have a: "\<exists>c' env. createTask ''2026-01-01T00:00:00.000Z'' example_task example_controller = (Inr ''1'', c')
        \<and> readInbox ''my-team_01'' ''worker1'' (inboxes c') = [env]
        \<and> parsed_type (parseMessage env) = ''task_assignment''
        \<and> string_field ''taskId'' (parseMessage env) = Some ''1''
        \<and> string_field ''subject'' (parseMessage env) = Some ''Build feature''"
    by (auto simp: readInbox_def example_controller_simps)
  from createTask_notifies_owner [OF i, where task = "example_task\<lparr>in_owner := None\<rparr>"
      and now = "''2026-01-01T00:00:00.000Z''"] o
    id1 [of "''2026-01-01T00:00:00.000Z''" "example_task\<lparr>in_owner := None\<rparr>"]
  have b: "\<exists>c'. createTask ''2026-01-01T00:00:00.000Z'' (example_task\<lparr>in_owner := None\<rparr>) example_controller
          = (Inr ''1'', c') \<and> inboxes c' = inboxes example_controller"
    by auto
  from a b i show ?thesis by blast
qed

section \<open>Properties of receiving\<close>

subsection \<open>One poll\<close>

lemma not_meaningful_iff:
  "\<not> is_meaningful ptype m \<longleftrightarrow> ptype m = ''idle_notification'' \<or> ptype m \<in> set PROTOCOL_ONLY_TYPES"
  by (auto simp: is_meaningful_def)

lemma idle_not_protocol_only: "''idle_notification'' \<notin> set PROTOCOL_ONLY_TYPES"
  by (simp add: PROTOCOL_ONLY_TYPES_def)

lemma plain_not_protocol_only: "''plain_text'' \<notin> set PROTOCOL_ONLY_TYPES"
  by (simp add: PROTOCOL_ONLY_TYPES_def)

lemma receive_poll_None_iff:
  "receive_poll ptype agentName all unread = None \<longleftrightarrow>
     (\<forall>m\<in>set unread. msg_from m = agentName \<longrightarrow> ptype m \<in> set PROTOCOL_ONLY_TYPES)"
proof -
  let ?from = "filter (\<lambda>m. msg_from m = agentName) unread"
  let ?mean = "filter (is_meaningful ptype) ?from"
  let ?idle = "filter (\<lambda>m. ptype m = ''idle_notification'') ?from"
  have "receive_poll ptype agentName all unread = None \<longleftrightarrow> ?from = [] \<or> (?mean = [] \<and> ?idle = [])"
    by (auto simp: receive_poll_def Let_def split: list.splits)
  also have "\<dots> \<longleftrightarrow> (\<forall>m\<in>set unread. msg_from m = agentName \<longrightarrow> ptype m \<in> set PROTOCOL_ONLY_TYPES)"
    using idle_not_protocol_only
    by (auto simp: filter_empty_conv is_meaningful_def)
  finally show ?thesis .
qed

lemma receive_poll_Some:
  assumes "receive_poll ptype agentName all unread = Some r"
  shows "r \<noteq> [] \<and> (\<forall>m\<in>set r. m \<in> set unread \<and> msg_from m = agentName
            \<and> ptype m \<notin> set PROTOCOL_ONLY_TYPES)"
proof -
  let ?from = "filter (\<lambda>m. msg_from m = agentName) unread"
  let ?mean = "filter (is_meaningful ptype) ?from"
  let ?idle = "filter (\<lambda>m. ptype m = ''idle_notification'') ?from"
  have sub: "set [hd xs] \<subseteq> set xs" if "xs \<noteq> []" for xs :: "InboxMessage list"
    using that by (cases xs) auto
  from assms consider (mean) "?mean \<noteq> []" "r = (if all then ?mean else [hd ?mean])"
    | (idle) "?mean = []" "?idle \<noteq> []" "r = (if all then ?idle else [hd ?idle])"
    by (auto simp: receive_poll_def Let_def split: list.splits if_splits)
  then show ?thesis
  proof cases
    case mean
    then have "r \<noteq> []" "set r \<subseteq> set ?mean" using sub [of ?mean] by auto
    then show ?thesis by (auto simp: is_meaningful_def)
  next
    case idle
    then have "r \<noteq> []" "set r \<subseteq> set ?idle" using sub [of ?idle] by auto
    then show ?thesis using idle_not_protocol_only by auto
  qed
qed

lemma receive_poll_idle_only:
  assumes "\<forall>m\<in>set unread. msg_from m = agentName \<longrightarrow> \<not> is_meaningful ptype m"
    and "\<exists>m\<in>set unread. msg_from m = agentName \<and> ptype m = ''idle_notification''"
  shows "\<exists>r. receive_poll ptype agentName all unread = Some r \<and> r \<noteq> []
           \<and> (\<forall>m\<in>set r. m \<in> set unread \<and> msg_from m = agentName \<and> ptype m = ''idle_notification'')"
proof -
  let ?from = "filter (\<lambda>m. msg_from m = agentName) unread"
  let ?mean = "filter (is_meaningful ptype) ?from"
  let ?idle = "filter (\<lambda>m. ptype m = ''idle_notification'') ?from"
  have m: "?mean = []" using assms(1) by (auto simp: filter_empty_conv)
  from assms(2) have i: "?idle \<noteq> []" by (auto simp: filter_empty_conv)
  then obtain x xs where x: "?idle = x # xs" by (cases ?idle) auto
  then have "x \<in> set ?idle" by simp
  have f: "?from \<noteq> []" using assms(2) by (auto simp: filter_empty_conv)
  have r: "receive_poll ptype agentName all unread = Some (if all then ?idle else [x])"
    using m x f by (simp add: receive_poll_def Let_def)
  have "set (if all then ?idle else [x]) \<subseteq> set ?idle" using x by auto
  then have "\<forall>m\<in>set (if all then ?idle else [x]). m \<in> set unread \<and> msg_from m = agentName \<and> ptype m = ''idle_notification''"
    by auto
  moreover have "(if all then ?idle else [x]) \<noteq> []" using i by simp
  ultimately show ?thesis using r by blast
qed

lemma receiveAny_poll_None_iff:
  "receiveAny_poll ptype unread = None \<longleftrightarrow> (\<forall>m\<in>set unread. \<not> is_meaningful ptype m)"
proof -
  have "receiveAny_poll ptype unread = None \<longleftrightarrow> filter (is_meaningful ptype) unread = []"
    by (simp add: receiveAny_poll_def split: list.splits)
  then show ?thesis by (simp add: filter_empty_conv)
qed

lemma receiveAny_poll_Some:
  "receiveAny_poll ptype unread = Some m \<Longrightarrow> m \<in> set unread \<and> is_meaningful ptype m"
proof -
  assume "receiveAny_poll ptype unread = Some m"
  then obtain ms where "filter (is_meaningful ptype) unread = m # ms"
    by (auto simp: receiveAny_poll_def split: list.splits)
  then have "m \<in> set (filter (is_meaningful ptype) unread)" by simp
  then show ?thesis by simp
qed

subsection \<open>The polling loops\<close>

lemma poll_takes_place_iff:
  "poll_takes_place clock deadline k \<longleftrightarrow> (\<forall>j\<le>k. clock (Suc j) < deadline)"
  by (auto simp: poll_takes_place_def list_all_iff less_Suc_eq_le)

lemma receive_loop_timeout:
  assumes "\<not> clock (Suc (i + n)) < deadline"
    and "\<forall>j<n. (\<forall>l\<le>j. clock (Suc (i + l)) < deadline) \<longrightarrow>
           receive_poll ptype agentName all (readUnread (i + j)) = None"
  shows "receive_loop ptype clock readUnread agentName timeout interval all deadline i
       = Some (Inl (Error (''Timeout ('' @ Int_toString timeout @ ''ms) waiting for message from ''
                        @ [CHR 0x22] @ agentName @ [CHR 0x22])))"
  using assms
proof (induction n arbitrary: i)
  case 0
  then show ?case by (subst receive_loop.simps) simp
next
  case (Suc n)
  show ?case
  proof (cases "clock (Suc i) < deadline")
    case False
    then show ?thesis by (subst receive_loop.simps) simp
  next
    case True
    from Suc.prems(2) [rule_format, of 0] True
    have p: "receive_poll ptype agentName all (readUnread i) = None" by simp
    have a: "\<not> clock (Suc (Suc i + n)) < deadline" using Suc.prems(1) by simp
    have b: "\<forall>j<n. (\<forall>l\<le>j. clock (Suc (Suc i + l)) < deadline) \<longrightarrow>
           receive_poll ptype agentName all (readUnread (Suc i + j)) = None"
    proof (intro allI impI)
      fix j
      assume j: "j < n" and l: "\<forall>l\<le>j. clock (Suc (Suc i + l)) < deadline"
      have "\<forall>l\<le>Suc j. clock (Suc (i + l)) < deadline"
      proof (intro allI impI)
        fix l
        assume "l \<le> Suc j"
        show "clock (Suc (i + l)) < deadline"
        proof (cases l)
          case 0
          with True show ?thesis by simp
        next
          case (Suc l')
          with \<open>l \<le> Suc j\<close> l show ?thesis by simp
        qed
      qed
      with Suc.prems(2) [rule_format, of "Suc j"] j
      show "receive_poll ptype agentName all (readUnread (Suc i + j)) = None" by simp
    qed
    from Suc.IH [OF a b] True p show ?thesis
      by (subst receive_loop.simps) simp
  qed
qed

lemma receive_loop_found:
  assumes "\<forall>l\<le>k. clock (Suc (i + l)) < deadline"
    and "receive_poll ptype agentName all (readUnread (i + k)) \<noteq> None"
  shows "\<exists>r j. receive_loop ptype clock readUnread agentName timeout interval all deadline i
             = Some (Inr r)
           \<and> j \<le> k \<and> receive_poll ptype agentName all (readUnread (i + j)) = Some r"
  using assms
proof (induction k arbitrary: i)
  case 0
  then show ?case
    by (subst receive_loop.simps) auto
next
  case (Suc k)
  from Suc.prems(1) [rule_format, of 0] have lt: "clock (Suc i) < deadline" by simp
  show ?case
  proof (cases "receive_poll ptype agentName all (readUnread i)")
    case (Some r)
    with lt show ?thesis
      by (subst receive_loop.simps) (auto intro: exI [of _ 0])
  next
    case None
    have a: "\<forall>l\<le>k. clock (Suc (Suc i + l)) < deadline"
    proof (intro allI impI)
      fix l
      assume "l \<le> k"
      with Suc.prems(1) [rule_format, of "Suc l"] show "clock (Suc (Suc i + l)) < deadline"
        by simp
    qed
    have b: "receive_poll ptype agentName all (readUnread (Suc i + k)) \<noteq> None"
      using Suc.prems(2) by simp
    from Suc.IH [OF a b] obtain r j where
      r: "receive_loop ptype clock readUnread agentName timeout interval all deadline (Suc i)
            = Some (Inr r)"
      "j \<le> k" "receive_poll ptype agentName all (readUnread (Suc i + j)) = Some r"
      by blast
    have "receive_loop ptype clock readUnread agentName timeout interval all deadline i
        = Some (Inr r)"
      using lt None r(1) by (subst receive_loop.simps) simp
    moreover have "Suc j \<le> Suc k"
      "receive_poll ptype agentName all (readUnread (i + Suc j)) = Some r"
      using r(2,3) by simp_all
    ultimately show ?thesis by blast
  qed
qed

lemma receive_loop_result:
  assumes "receive_loop ptype clock readUnread agentName timeout interval all deadline i = Some y"
  shows "\<forall>r. y = Inr r \<longrightarrow>
           (\<exists>j. receive_poll ptype agentName all (readUnread j) = Some r)"
  by (rule receive_loop.raw_induct
        [where P = "\<lambda>ptype clock readUnread agentName timeout interval all deadline i y.
           \<forall>r. y = Inr r \<longrightarrow>
             (\<exists>j. receive_poll ptype agentName all (readUnread j) = Some r)",
         OF _ assms])
     (auto split: if_splits option.splits)

lemma receiveAny_loop_timeout:
  assumes "\<not> clock (Suc (i + n)) < deadline"
    and "\<forall>j<n. (\<forall>l\<le>j. clock (Suc (i + l)) < deadline) \<longrightarrow>
           receiveAny_poll ptype (readUnread (i + j)) = None"
  shows "receiveAny_loop ptype clock readUnread timeout interval deadline i
       = Some (Inl (Error (''Timeout ('' @ Int_toString timeout @ ''ms) waiting for any message'')))"
  using assms
proof (induction n arbitrary: i)
  case 0
  then show ?case by (subst receiveAny_loop.simps) simp
next
  case (Suc n)
  show ?case
  proof (cases "clock (Suc i) < deadline")
    case False
    then show ?thesis by (subst receiveAny_loop.simps) simp
  next
    case True
    from Suc.prems(2) [rule_format, of 0] True
    have p: "receiveAny_poll ptype (readUnread i) = None" by simp
    have a: "\<not> clock (Suc (Suc i + n)) < deadline" using Suc.prems(1) by simp
    have b: "\<forall>j<n. (\<forall>l\<le>j. clock (Suc (Suc i + l)) < deadline) \<longrightarrow>
           receiveAny_poll ptype (readUnread (Suc i + j)) = None"
    proof (intro allI impI)
      fix j
      assume j: "j < n" and l: "\<forall>l\<le>j. clock (Suc (Suc i + l)) < deadline"
      have "\<forall>l\<le>Suc j. clock (Suc (i + l)) < deadline"
      proof (intro allI impI)
        fix l
        assume "l \<le> Suc j"
        show "clock (Suc (i + l)) < deadline"
        proof (cases l)
          case 0
          with True show ?thesis by simp
        next
          case (Suc l')
          with \<open>l \<le> Suc j\<close> l show ?thesis by simp
        qed
      qed
      with Suc.prems(2) [rule_format, of "Suc j"] j
      show "receiveAny_poll ptype (readUnread (Suc i + j)) = None" by simp
    qed
    from Suc.IH [OF a b] True p show ?thesis
      by (subst receiveAny_loop.simps) simp
  qed
qed

lemma receiveAny_loop_result:
  assumes "receiveAny_loop ptype clock readUnread timeout interval deadline i = Some y"
  shows "\<forall>m. y = Inr m \<longrightarrow> (\<exists>j. receiveAny_poll ptype (readUnread j) = Some m)"
  by (rule receiveAny_loop.raw_induct
        [where P = "\<lambda>ptype clock readUnread timeout interval deadline i y.
           \<forall>m. y = Inr m \<longrightarrow> (\<exists>j. receiveAny_poll ptype (readUnread j) = Some m)",
         OF _ assms])
     (auto split: if_splits option.splits)

subsection \<open>The calls\<close>

lemma receive_unfold:
  "receive ptype clock readUnread agentName opts =
     receive_loop ptype clock readUnread agentName (opts_timeout opts) (opts_pollInterval opts)
       (opts_all opts) (clock 0 + opts_timeout opts) 0"
  by (simp add: receive_def Let_def)

lemma receiveAny_unfold:
  "receiveAny ptype clock readUnread opts =
     receiveAny_loop ptype clock readUnread (opts_timeout opts) (opts_pollInterval opts)
       (clock 0 + opts_timeout opts) 0"
  by (simp add: receiveAny_def Let_def)

lemma receive_timeout:
  assumes "\<exists>n. \<not> clock (Suc n) < clock 0 + opts_timeout opts"
    and "\<forall>j. poll_takes_place clock (clock 0 + opts_timeout opts) j \<longrightarrow>
              receive_poll ptype agentName (opts_all opts) (readUnread j) = None"
  shows "receive ptype clock readUnread agentName opts
       = Some (Inl (Error (''Timeout ('' @ Int_toString (opts_timeout opts)
           @ ''ms) waiting for message from '' @ [CHR 0x22] @ agentName @ [CHR 0x22])))"
proof -
  from assms(1) obtain n where "\<not> clock (Suc n) < clock 0 + opts_timeout opts" by blast
  with assms(2) show ?thesis
    unfolding receive_unfold
    by (intro receive_loop_timeout [where n = n]) (simp_all add: poll_takes_place_iff)
qed

lemma receive_found:
  assumes "poll_takes_place clock (clock 0 + opts_timeout opts) k"
    and "receive_poll ptype agentName (opts_all opts) (readUnread k) \<noteq> None"
  shows "\<exists>r j. receive ptype clock readUnread agentName opts = Some (Inr r)
           \<and> j \<le> k \<and> receive_poll ptype agentName (opts_all opts) (readUnread j) = Some r"
proof -
  have a: "\<forall>l\<le>k. clock (Suc (0 + l)) < clock 0 + opts_timeout opts"
    using assms(1) by (simp add: poll_takes_place_iff)
  have b: "receive_poll ptype agentName (opts_all opts) (readUnread (0 + k)) \<noteq> None"
    using assms(2) by simp
  from receive_loop_found [where i = 0 and readUnread = readUnread and clock = clock, OF a b,
      of "opts_timeout opts" "opts_pollInterval opts"]
  show ?thesis by (simp add: receive_unfold)
qed

lemma receive_result:
  assumes "receive ptype clock readUnread agentName opts = Some (Inr r)"
  shows "\<exists>j. receive_poll ptype agentName (opts_all opts) (readUnread j) = Some r"
  using receive_loop_result [OF assms [unfolded receive_unfold]] by simp

lemma receiveAny_timeout:
  assumes "\<exists>n. \<not> clock (Suc n) < clock 0 + opts_timeout opts"
    and "\<forall>j. poll_takes_place clock (clock 0 + opts_timeout opts) j \<longrightarrow>
              receiveAny_poll ptype (readUnread j) = None"
  shows "receiveAny ptype clock readUnread opts
       = Some (Inl (Error (''Timeout ('' @ Int_toString (opts_timeout opts)
           @ ''ms) waiting for any message'')))"
proof -
  from assms(1) obtain n where "\<not> clock (Suc n) < clock 0 + opts_timeout opts" by blast
  with assms(2) show ?thesis
    unfolding receiveAny_unfold
    by (intro receiveAny_loop_timeout [where n = n]) (simp_all add: poll_takes_place_iff)
qed

lemma receiveAny_result:
  assumes "receiveAny ptype clock readUnread opts = Some (Inr m)"
  shows "\<exists>j. receiveAny_poll ptype (readUnread j) = Some m"
  using receiveAny_loop_result [OF assms [unfolded receiveAny_unfold]] by simp

subsection \<open>The example mailboxes\<close>

lemma classify_examples:
  "classify example_idle = ''idle_notification''"
  "classify example_permission_response = ''permission_response''"
  "classify example_reply = ''plain_text''"
proof -
  let ?i = "[(''type'', JString ''idle_notification''), (''from'', JString ''w1''),
         (''timestamp'', JString ''2026-01-01T00:00:00.000Z'')]"
  let ?p = "[(''type'', JString ''permission_response''), (''requestId'', JString ''perm-1''),
         (''approved'', JBool True)]"
  have "parseMessage example_idle = ?i"
    by (rule parseMessage_stringify [where t = "''idle_notification''"])
       (simp_all add: example_idle_def RECOGNIZED_TYPES_def)
  then show "classify example_idle = ''idle_notification''"
    by (simp add: classify_def parsed_type_def string_field_def)
  have "parseMessage example_permission_response = ?p"
    by (rule parseMessage_stringify [where t = "''permission_response''"])
       (simp_all add: example_permission_response_def RECOGNIZED_TYPES_def)
  then show "classify example_permission_response = ''permission_response''"
    by (simp add: classify_def parsed_type_def string_field_def)
  have "JSON_parse (msg_text example_reply) = None"
    by (simp add: example_reply_def JSON_parse_def skip_ws_def is_ws_def)
  then show "classify example_reply = ''plain_text''"
    by (rule classify_plain)
qed

lemma classify_plan_request: "classify example_plan_request = ''plan_approval_request''"
proof -
  have "parseMessage example_plan_request =
      [(''type'', JString ''plan_approval_request''), (''requestId'', JString ''plan-1''),
       (''from'', JString ''w1''), (''planContent'', JString ''1. read 2. edit''),
       (''timestamp'', JString ''2026-01-01T00:00:00.000Z'')]"
    by (rule parseMessage_stringify [where t = "''plan_approval_request''"])
       (simp_all add: example_plan_request_def RECOGNIZED_TYPES_def)
  then show ?thesis
    by (simp add: classify_def parsed_type_def string_field_def)
qed

lemma example_from:
  "msg_from example_idle = ''w1''" "msg_from example_reply = ''w1''"
  "msg_from example_permission_response = ''w1''" "msg_from example_plan_request = ''w1''"
  by (simp_all add: example_idle_def example_reply_def example_permission_response_def
      example_plan_request_def)

lemma example_opts_simps:
  "opts_timeout example_opts = 2000" "opts_pollInterval example_opts = 500"
  "opts_all example_opts = False"
  "opts_timeout short_opts = 1501" "opts_pollInterval short_opts = 500"
  "opts_all short_opts = False"
  by (simp_all add: example_opts_def short_opts_def opts_timeout_def opts_pollInterval_def
      opts_all_def)

lemma example_meaningful:
  "\<not> is_meaningful classify example_idle"
  "\<not> is_meaningful classify example_permission_response"
  "is_meaningful classify example_reply"
  "is_meaningful classify example_plan_request"
  by (simp_all add: is_meaningful_def classify_examples classify_plan_request
      PROTOCOL_ONLY_TYPES_def)

subsection \<open>The example clock\<close>

lemma example_clock_simps:
  "example_clock 0 = 1767225600000" "example_clock (Suc 0) = 1767225600001"
  "example_clock (Suc (Suc 0)) = 1767225600502"
  "example_clock (Suc (Suc (Suc 0))) = 1767225601003"
  "example_clock (Suc (Suc (Suc (Suc 0)))) = 1767225601504"
  "example_clock (Suc (Suc (Suc (Suc (Suc 0))))) = 1767225602005"
  by (simp_all add: example_clock_def)

lemma exact_timing_example:
  "exact_timing example_clock example_opts" "exact_timing example_clock short_opts"
  by (simp_all add: exact_timing_def isSafeInteger_def MAX_SAFE_INTEGER_def example_opts_simps
      example_clock_simps)

lemma example_clock_reaches:
  "\<exists>n. \<not> example_clock (Suc n) < example_clock 0 + opts_timeout example_opts"
  "\<exists>n. \<not> example_clock (Suc n) < example_clock 0 + opts_timeout short_opts"
  by (rule exI [of _ 4], simp add: example_clock_def example_opts_simps)+

lemma example_polls:
  "poll_takes_place example_clock (example_clock 0 + opts_timeout example_opts) 0"
  "poll_takes_place example_clock (example_clock 0 + opts_timeout example_opts) 2"
  by (simp_all add: poll_takes_place_iff example_clock_def example_opts_simps)

lemma example_polls_short:
  "\<not> poll_takes_place example_clock (example_clock 0 + opts_timeout short_opts) 3"
proof
  assume "poll_takes_place example_clock (example_clock 0 + opts_timeout short_opts) 3"
  from this [unfolded poll_takes_place_iff, rule_format, of 3] show False
    by (simp add: example_clock_def example_opts_simps)
qed

subsection \<open>Timeout and success of receive\<close>

text \<open>
  With a timeout of 1501 ms and the example clock, three polls take place; a reply that
  is in the batch of a fourth poll comes too late, and \<open>receive\<close> throws.
\<close>

lemma receive_late_reply:
  "receive classify example_clock reply_at_fourth ''w1'' short_opts
     = Some (Inl (Error (''Timeout (1501ms) waiting for message from '' @ [CHR 0x22] @ ''w1''
                     @ [CHR 0x22])))"
proof -
  have q: "\<forall>j. poll_takes_place example_clock (example_clock 0 + opts_timeout short_opts) j \<longrightarrow>
      receive_poll classify ''w1'' (opts_all short_opts) (reply_at_fourth j) = None"
  proof (intro allI impI)
    fix j
    assume p: "poll_takes_place example_clock (example_clock 0 + opts_timeout short_opts) j"
    have "j \<noteq> 3" using p example_polls_short by blast
    then show "receive_poll classify ''w1'' (opts_all short_opts) (reply_at_fourth j) = None"
      by (simp add: receive_poll_def reply_at_fourth_def)
  qed
  from receive_timeout [OF example_clock_reaches(2) q]
  show ?thesis
    by (simp add: example_opts_simps Int_toString_def Number_toString.simps digit_char_def)
qed

text \<open>
  Claim C4, as stated, fails: a message from the sender that is neither plain text nor an
  idle notification, here a plan approval request, also ends the wait. With this mailbox
  no plain-text message and no idle notification ever arrives, and \<open>receive\<close> returns
  the request instead of failing with a timeout error.
\<close>

theorem receive_returns_plan_request:
  "request_only 0 = [example_plan_request]
   \<and> classify example_plan_request = ''plan_approval_request''
   \<and> exact_timing example_clock example_opts
   \<and> receive classify example_clock request_only ''w1'' example_opts
       = Some (Inr [example_plan_request])"
  by (simp add: receive_unfold receive_loop.simps [of _ _ _ _ _ _ _ _ 0] example_opts_simps
      example_clock_simps receive_poll_def request_only_def example_from example_meaningful
      classify_plan_request exact_timing_example)

text \<open>
  Claim C4, amended. The timeout \<open>T\<close> is an integer number of milliseconds, and \<open>T\<close>, the
  clock reading \<open>t0\<close> at the call and the deadline \<open>t0 + T\<close> are safe integers. Poll number
  \<open>k\<close> of \<open>receive\<close> takes place when the clock readings of the loop tests number 0 to \<open>k\<close>
  are all before the deadline. If the clock reaches the deadline at some loop test, and
  none of the polls that take place finds a message from the sender other than of the
  protocol-only types (\<open>shutdown_approved\<close>, \<open>plan_approval_response\<close>,
  \<open>permission_response\<close>), then \<open>receive\<close> fails with the error
  "Timeout (\<open>T\<close>ms) waiting for message from "\<open>sender\<close>"". If a poll that takes place finds
  in its batch a message from the sender that is not of a protocol-only type (plain text,
  an idle notification, or any other type, such as a plan approval request), then
  \<open>receive\<close> succeeds: it returns a non-empty list of messages from that sender, none of
  a protocol-only type.
\<close>

theorem receive_timeout_or_message:
  assumes "exact_timing clock opts"
  shows "((\<exists>n. \<not> clock (Suc n) < clock 0 + opts_timeout opts)
       \<and> (\<forall>j. poll_takes_place clock (clock 0 + opts_timeout opts) j \<longrightarrow>
             (\<forall>m\<in>set (readUnread j). msg_from m = agentName
                 \<longrightarrow> ptype m \<in> set PROTOCOL_ONLY_TYPES))
     \<longrightarrow> receive ptype clock readUnread agentName opts
           = Some (Inl (Error (''Timeout ('' @ Int_toString (opts_timeout opts)
               @ ''ms) waiting for message from '' @ [CHR 0x22] @ agentName @ [CHR 0x22]))))
   \<and> ((\<exists>k m. poll_takes_place clock (clock 0 + opts_timeout opts) k
          \<and> m \<in> set (readUnread k) \<and> msg_from m = agentName
          \<and> ptype m \<notin> set PROTOCOL_ONLY_TYPES)
     \<longrightarrow> (\<exists>r. receive ptype clock readUnread agentName opts = Some (Inr r) \<and> r \<noteq> []
            \<and> (\<forall>m\<in>set r. msg_from m = agentName \<and> ptype m \<notin> set PROTOCOL_ONLY_TYPES)))"
proof -
  let ?d = "clock 0 + opts_timeout opts"
  have 1: "(\<exists>n. \<not> clock (Suc n) < ?d)
       \<and> (\<forall>j. poll_takes_place clock ?d j \<longrightarrow>
             (\<forall>m\<in>set (readUnread j). msg_from m = agentName
                 \<longrightarrow> ptype m \<in> set PROTOCOL_ONLY_TYPES))
     \<longrightarrow> receive ptype clock readUnread agentName opts
           = Some (Inl (Error (''Timeout ('' @ Int_toString (opts_timeout opts)
               @ ''ms) waiting for message from '' @ [CHR 0x22] @ agentName @ [CHR 0x22])))"
  proof
    assume a: "(\<exists>n. \<not> clock (Suc n) < ?d)
       \<and> (\<forall>j. poll_takes_place clock ?d j \<longrightarrow>
             (\<forall>m\<in>set (readUnread j). msg_from m = agentName
                 \<longrightarrow> ptype m \<in> set PROTOCOL_ONLY_TYPES))"
    then have n: "\<exists>n. \<not> clock (Suc n) < ?d" by blast
    from a have "\<forall>j. poll_takes_place clock ?d j \<longrightarrow>
       receive_poll ptype agentName (opts_all opts) (readUnread j) = None"
      by (simp add: receive_poll_None_iff)
    with n show "receive ptype clock readUnread agentName opts
           = Some (Inl (Error (''Timeout ('' @ Int_toString (opts_timeout opts)
               @ ''ms) waiting for message from '' @ [CHR 0x22] @ agentName @ [CHR 0x22])))"
      by (rule receive_timeout)
  qed
  have 2: "(\<exists>k m. poll_takes_place clock ?d k
          \<and> m \<in> set (readUnread k) \<and> msg_from m = agentName
          \<and> ptype m \<notin> set PROTOCOL_ONLY_TYPES)
     \<longrightarrow> (\<exists>r. receive ptype clock readUnread agentName opts = Some (Inr r) \<and> r \<noteq> []
            \<and> (\<forall>m\<in>set r. msg_from m = agentName \<and> ptype m \<notin> set PROTOCOL_ONLY_TYPES))"
  proof
    assume "\<exists>k m. poll_takes_place clock ?d k
          \<and> m \<in> set (readUnread k) \<and> msg_from m = agentName
          \<and> ptype m \<notin> set PROTOCOL_ONLY_TYPES"
    then obtain k m where k: "poll_takes_place clock ?d k"
      and m: "m \<in> set (readUnread k)" "msg_from m = agentName"
        "ptype m \<notin> set PROTOCOL_ONLY_TYPES"
      by blast
    from m have ne: "receive_poll ptype agentName (opts_all opts) (readUnread k) \<noteq> None"
      by (auto simp: receive_poll_None_iff)
    from receive_found [where clock = clock and readUnread = readUnread and opts = opts,
        OF k ne] obtain r j where
      r: "receive ptype clock readUnread agentName opts = Some (Inr r)"
      and p: "receive_poll ptype agentName (opts_all opts) (readUnread j) = Some r"
      by blast
    from receive_poll_Some [OF p] r
    show "\<exists>r. receive ptype clock readUnread agentName opts = Some (Inr r) \<and> r \<noteq> []
            \<and> (\<forall>m\<in>set r. msg_from m = agentName \<and> ptype m \<notin> set PROTOCOL_ONLY_TYPES)"
      by auto
  qed
  show ?thesis by (intro conjI 1 2)
qed

theorem receive_timeout_or_message_witness:
  "exact_timing example_clock example_opts
   \<and> receive classify example_clock protocol_only ''w1'' example_opts
     = Some (Inl (Error (''Timeout (2000ms) waiting for message from '' @ [CHR 0x22] @ ''w1''
                     @ [CHR 0x22])))
   \<and> (\<exists>r. receive classify example_clock reply_at_third ''w1'' example_opts = Some (Inr r)
         \<and> r \<noteq> [] \<and> (\<forall>m\<in>set r. msg_from m = ''w1''))
   \<and> poll_takes_place example_clock (example_clock 0 + opts_timeout example_opts) 2
   \<and> example_reply \<in> set (reply_at_third 2) \<and> classify example_reply = ''plain_text''"
proof -
  let ?d = "example_clock 0 + opts_timeout example_opts"
  have quiet: "(\<exists>n. \<not> example_clock (Suc n) < ?d)
       \<and> (\<forall>j. poll_takes_place example_clock ?d j \<longrightarrow>
        (\<forall>m\<in>set (protocol_only j). msg_from m = ''w1''
            \<longrightarrow> classify m \<in> set PROTOCOL_ONLY_TYPES))"
    using example_clock_reaches(1)
    by (auto simp: protocol_only_def classify_examples PROTOCOL_ONLY_TYPES_def)
  have t: "Int_toString (opts_timeout example_opts) = ''2000''"
    by (simp add: example_opts_simps Int_toString_def Number_toString.simps digit_char_def)
  have m: "example_reply \<in> set (reply_at_third 2)" "msg_from example_reply = ''w1''"
    "classify example_reply = ''plain_text''"
    by (simp_all add: reply_at_third_def example_from classify_examples)
  from example_polls(2) m have found: "\<exists>k m. poll_takes_place example_clock ?d k
          \<and> m \<in> set (reply_at_third k) \<and> msg_from m = ''w1''
          \<and> classify m \<notin> set PROTOCOL_ONLY_TYPES"
    using plain_not_protocol_only by metis
  from receive_timeout_or_message [OF exact_timing_example(1), where ptype = classify
      and readUnread = protocol_only and agentName = "''w1''"] quiet t
  have a: "receive classify example_clock protocol_only ''w1'' example_opts
     = Some (Inl (Error (''Timeout (2000ms) waiting for message from '' @ [CHR 0x22] @ ''w1''
                     @ [CHR 0x22])))"
    by simp
  from receive_timeout_or_message [OF exact_timing_example(1), where ptype = classify
      and readUnread = reply_at_third and agentName = "''w1''"] found
  have b: "\<exists>r. receive classify example_clock reply_at_third ''w1'' example_opts = Some (Inr r)
         \<and> r \<noteq> [] \<and> (\<forall>m\<in>set r. msg_from m = ''w1'')"
    by blast
  from a b example_polls(2) m exact_timing_example(1) show ?thesis by blast
qed

subsection \<open>What receive and receiveAny return\<close>

text \<open>
  Claim C3, as stated, fails for \<open>receiveAny\<close>: with a mailbox whose only traffic is an
  idle notification, \<open>receiveAny\<close> does not return the idle notification; it treats every
  batch as empty and times out.
\<close>

theorem receiveAny_skips_idle:
  "idle_only 0 = [example_idle] \<and> classify example_idle = ''idle_notification''
   \<and> exact_timing example_clock example_opts
   \<and> receiveAny classify example_clock idle_only example_opts \<noteq> Some (Inr example_idle)
   \<and> receiveAny classify example_clock idle_only example_opts
       = Some (Inl (Error ''Timeout (2000ms) waiting for any message''))"
proof -
  have n: "\<forall>j. poll_takes_place example_clock (example_clock 0 + opts_timeout example_opts) j
      \<longrightarrow> receiveAny_poll classify (idle_only j) = None"
    by (simp add: receiveAny_poll_None_iff idle_only_def example_meaningful)
  have "receiveAny classify example_clock idle_only example_opts
       = Some (Inl (Error ''Timeout (2000ms) waiting for any message''))"
    using receiveAny_timeout [OF example_clock_reaches(1) n]
    by (simp add: example_opts_simps Int_toString_def Number_toString.simps digit_char_def)
  then show ?thesis
    by (simp add: idle_only_def classify_examples exact_timing_example)
qed

text \<open>
  Claim C3, amended. The timeout is an integer number of milliseconds, and the timeout,
  the clock reading at the call and the deadline are safe integers. Neither \<open>receive\<close>
  nor \<open>receiveAny\<close> ever returns a message that classifies as \<open>shutdown_approved\<close>,
  \<open>plan_approval_response\<close> or \<open>permission_response\<close>. What \<open>receive\<close> returns is a
  non-empty list of messages from the polled sender. When a poll that takes place (the
  clock readings of its loop test and of those before it are all before the deadline)
  finds an idle notification from the sender, and up to that poll the sender's messages
  were all idle notifications or protocol-only, \<open>receive\<close> returns idle notifications of
  that sender rather than treating the inbox as empty. \<open>receiveAny\<close> never returns an
  idle notification: while the batches of the polls that take place hold nothing but
  idle notifications and protocol-only messages it keeps polling, and when the clock
  reaches the deadline at a loop test it fails with its timeout error.
\<close>

theorem receive_filters_protocol_only:
  assumes "exact_timing clock opts"
  shows "(receive ptype clock readUnread agentName opts = Some (Inr r) \<longrightarrow>
      r \<noteq> [] \<and> (\<forall>m\<in>set r. msg_from m = agentName \<and> ptype m \<notin> set PROTOCOL_ONLY_TYPES))
   \<and> (receiveAny ptype clock readUnread opts = Some (Inr x) \<longrightarrow>
        ptype x \<notin> set PROTOCOL_ONLY_TYPES \<and> ptype x \<noteq> ''idle_notification'')
   \<and> (poll_takes_place clock (clock 0 + opts_timeout opts) k
        \<and> (\<forall>j\<le>k. \<forall>m\<in>set (readUnread j). msg_from m = agentName \<longrightarrow> \<not> is_meaningful ptype m)
        \<and> (\<exists>m\<in>set (readUnread k). msg_from m = agentName \<and> ptype m = ''idle_notification'')
      \<longrightarrow> (\<exists>r. receive ptype clock readUnread agentName opts = Some (Inr r) \<and> r \<noteq> []
             \<and> (\<forall>m\<in>set r. msg_from m = agentName \<and> ptype m = ''idle_notification'')))
   \<and> ((\<exists>n. \<not> clock (Suc n) < clock 0 + opts_timeout opts)
        \<and> (\<forall>j. poll_takes_place clock (clock 0 + opts_timeout opts) j \<longrightarrow>
              (\<forall>m\<in>set (readUnread j). \<not> is_meaningful ptype m))
      \<longrightarrow> receiveAny ptype clock readUnread opts
            = Some (Inl (Error (''Timeout ('' @ Int_toString (opts_timeout opts)
                @ ''ms) waiting for any message''))))"
proof -
  let ?d = "clock 0 + opts_timeout opts"
  have 1: "receive ptype clock readUnread agentName opts = Some (Inr r) \<longrightarrow>
      r \<noteq> [] \<and> (\<forall>m\<in>set r. msg_from m = agentName \<and> ptype m \<notin> set PROTOCOL_ONLY_TYPES)"
  proof
    assume "receive ptype clock readUnread agentName opts = Some (Inr r)"
    then obtain j where "receive_poll ptype agentName (opts_all opts) (readUnread j) = Some r"
      using receive_result by blast
    from receive_poll_Some [OF this]
    show "r \<noteq> [] \<and> (\<forall>m\<in>set r. msg_from m = agentName \<and> ptype m \<notin> set PROTOCOL_ONLY_TYPES)"
      by blast
  qed
  have 2: "receiveAny ptype clock readUnread opts = Some (Inr x) \<longrightarrow>
        ptype x \<notin> set PROTOCOL_ONLY_TYPES \<and> ptype x \<noteq> ''idle_notification''"
  proof
    assume "receiveAny ptype clock readUnread opts = Some (Inr x)"
    then obtain j where "receiveAny_poll ptype (readUnread j) = Some x"
      using receiveAny_result by blast
    from receiveAny_poll_Some [OF this]
    show "ptype x \<notin> set PROTOCOL_ONLY_TYPES \<and> ptype x \<noteq> ''idle_notification''"
      by (simp add: is_meaningful_def)
  qed
  have 3: "poll_takes_place clock ?d k
        \<and> (\<forall>j\<le>k. \<forall>m\<in>set (readUnread j). msg_from m = agentName \<longrightarrow> \<not> is_meaningful ptype m)
        \<and> (\<exists>m\<in>set (readUnread k). msg_from m = agentName \<and> ptype m = ''idle_notification'')
      \<longrightarrow> (\<exists>r. receive ptype clock readUnread agentName opts = Some (Inr r) \<and> r \<noteq> []
             \<and> (\<forall>m\<in>set r. msg_from m = agentName \<and> ptype m = ''idle_notification''))"
  proof
    assume a: "poll_takes_place clock ?d k
        \<and> (\<forall>j\<le>k. \<forall>m\<in>set (readUnread j). msg_from m = agentName \<longrightarrow> \<not> is_meaningful ptype m)
        \<and> (\<exists>m\<in>set (readUnread k). msg_from m = agentName \<and> ptype m = ''idle_notification'')"
    then have ne: "receive_poll ptype agentName (opts_all opts) (readUnread k) \<noteq> None"
      using idle_not_protocol_only by (auto simp: receive_poll_None_iff)
    from a have "poll_takes_place clock ?d k"
      by simp
    from receive_found [where clock = clock and readUnread = readUnread and opts = opts,
        OF this ne] obtain r j where
      r: "receive ptype clock readUnread agentName opts = Some (Inr r)"
      and j: "j \<le> k"
      and p: "receive_poll ptype agentName (opts_all opts) (readUnread j) = Some r"
      by blast
    from receive_poll_Some [OF p]
    have s: "r \<noteq> []" "\<forall>m\<in>set r. m \<in> set (readUnread j) \<and> msg_from m = agentName
        \<and> ptype m \<notin> set PROTOCOL_ONLY_TYPES"
      by simp_all
    have "ptype m = ''idle_notification''" if "m \<in> set r" for m
    proof -
      from s(2) that have "m \<in> set (readUnread j)" "msg_from m = agentName"
        "ptype m \<notin> set PROTOCOL_ONLY_TYPES" by blast+
      moreover from a j this(1,2) have "\<not> is_meaningful ptype m" by blast
      ultimately show ?thesis by (simp add: is_meaningful_def)
    qed
    with s r show "\<exists>r. receive ptype clock readUnread agentName opts = Some (Inr r) \<and> r \<noteq> []
             \<and> (\<forall>m\<in>set r. msg_from m = agentName \<and> ptype m = ''idle_notification'')"
      by auto
  qed
  have 4: "(\<exists>n. \<not> clock (Suc n) < ?d)
        \<and> (\<forall>j. poll_takes_place clock ?d j \<longrightarrow>
              (\<forall>m\<in>set (readUnread j). \<not> is_meaningful ptype m))
      \<longrightarrow> receiveAny ptype clock readUnread opts
            = Some (Inl (Error (''Timeout ('' @ Int_toString (opts_timeout opts)
                @ ''ms) waiting for any message'')))"
  proof
    assume a: "(\<exists>n. \<not> clock (Suc n) < ?d)
        \<and> (\<forall>j. poll_takes_place clock ?d j \<longrightarrow>
              (\<forall>m\<in>set (readUnread j). \<not> is_meaningful ptype m))"
    then have n: "\<exists>n. \<not> clock (Suc n) < ?d" by blast
    from a have "\<forall>j. poll_takes_place clock ?d j \<longrightarrow>
       receiveAny_poll ptype (readUnread j) = None"
      by (simp add: receiveAny_poll_None_iff)
    with n show "receiveAny ptype clock readUnread opts
            = Some (Inl (Error (''Timeout ('' @ Int_toString (opts_timeout opts)
                @ ''ms) waiting for any message'')))"
      by (rule receiveAny_timeout)
  qed
  show ?thesis by (intro conjI 1 2 3 4)
qed

lemma receive_idle_example:
  "receive classify example_clock idle_only ''w1'' example_opts = Some (Inr [example_idle])"
  by (simp add: receive_unfold receive_loop.simps [of _ _ _ _ _ _ _ _ 0] example_opts_simps
      example_clock_simps receive_poll_def idle_only_def example_from example_meaningful
      classify_examples)

lemma receiveAny_reply_example:
  "receiveAny classify example_clock reply_at_third example_opts = Some (Inr example_reply)"
  by (simp add: receiveAny_unfold receiveAny_loop.simps [of _ _ _ _ _ _ 0]
      receiveAny_loop.simps [of _ _ _ _ _ _ "Suc 0"]
      receiveAny_loop.simps [of _ _ _ _ _ _ "Suc (Suc 0)"]
      example_opts_simps example_clock_simps receiveAny_poll_def reply_at_third_def
      example_meaningful)

theorem receive_filters_protocol_only_witness:
  "exact_timing example_clock example_opts
   \<and> receive classify example_clock idle_only ''w1'' example_opts = Some (Inr [example_idle])
   \<and> classify example_idle = ''idle_notification''
   \<and> classify example_idle \<notin> set PROTOCOL_ONLY_TYPES
   \<and> receiveAny classify example_clock reply_at_third example_opts = Some (Inr example_reply)
   \<and> classify example_reply \<notin> set PROTOCOL_ONLY_TYPES
   \<and> (\<exists>e. receiveAny classify example_clock protocol_only example_opts = Some (Inl e))"
proof -
  let ?d = "example_clock 0 + opts_timeout example_opts"
  note th = receive_filters_protocol_only [OF exact_timing_example(1), where ptype = classify
      and agentName = "''w1''"]
  have 1: "classify example_idle \<notin> set PROTOCOL_ONLY_TYPES"
    using th [where readUnread = idle_only and r = "[example_idle]"] receive_idle_example
    by simp
  have 2: "classify example_reply \<notin> set PROTOCOL_ONLY_TYPES"
    using th [where readUnread = reply_at_third and x = example_reply] receiveAny_reply_example
    by simp
  have h3: "poll_takes_place example_clock ?d 0
        \<and> (\<forall>j\<le>0. \<forall>m\<in>set (idle_only j). msg_from m = ''w1'' \<longrightarrow> \<not> is_meaningful classify m)
        \<and> (\<exists>m\<in>set (idle_only 0). msg_from m = ''w1'' \<and> classify m = ''idle_notification'')"
    using example_polls(1)
    by (simp add: idle_only_def example_meaningful example_from classify_examples)
  have 3: "\<exists>r. receive classify example_clock idle_only ''w1'' example_opts = Some (Inr r)
             \<and> r \<noteq> []
             \<and> (\<forall>m\<in>set r. msg_from m = ''w1'' \<and> classify m = ''idle_notification'')"
    using th [where readUnread = idle_only and k = 0] h3 by blast
  have h4: "(\<exists>n. \<not> example_clock (Suc n) < ?d)
        \<and> (\<forall>j. poll_takes_place example_clock ?d j \<longrightarrow>
              (\<forall>m\<in>set (protocol_only j). \<not> is_meaningful classify m))"
    using example_clock_reaches(1) by (auto simp: protocol_only_def example_meaningful)
  have 4: "\<exists>e. receiveAny classify example_clock protocol_only example_opts = Some (Inl e)"
    using th [where readUnread = protocol_only] h4 by blast
  from 1 2 3 4 receive_idle_example receiveAny_reply_example classify_examples(1)
    exact_timing_example(1)
  show ?thesis by simp
qed

section \<open>Properties of the REST routes\<close>

subsection \<open>Approvals\<close>

lemma plan_response_parses:
  assumes "msg_text env = JSON_stringify (object_literal
            [(''type'', Some (JString ''plan_approval_response'')),
             (''requestId'', Some (JString requestId)),
             (''from'', Some (JString ''controller'')),
             (''approved'', Some (JBool approve)),
             (''feedback'', map_option JString feedback),
             (''timestamp'', Some (JString now))])"
  shows "parsed_type (parseMessage env) = ''plan_approval_response''
       \<and> string_field ''requestId'' (parseMessage env) = Some requestId
       \<and> map_of (parseMessage env) ''approved'' = Some (JBool approve)"
proof (cases feedback)
  case None
  let ?obj = "[(''type'', JString ''plan_approval_response''), (''requestId'', JString requestId),
      (''from'', JString ''controller''), (''approved'', JBool approve),
      (''timestamp'', JString now)]"
  have t: "msg_text env = JSON_stringify ?obj"
    using assms None by (simp add: object_literal_def map_filter_simps)
  have "parseMessage env = ?obj"
    by (rule parseMessage_stringify [OF t, where t = "''plan_approval_response''"])
       (simp_all add: RECOGNIZED_TYPES_def)
  then show ?thesis by (simp add: parsed_type_def string_field_def)
next
  case (Some fb)
  let ?obj = "[(''type'', JString ''plan_approval_response''), (''requestId'', JString requestId),
      (''from'', JString ''controller''), (''approved'', JBool approve),
      (''feedback'', JString fb), (''timestamp'', JString now)]"
  have t: "msg_text env = JSON_stringify ?obj"
    using assms Some by (simp add: object_literal_def map_filter_simps)
  have "parseMessage env = ?obj"
    by (rule parseMessage_stringify [OF t, where t = "''plan_approval_response''"])
       (simp_all add: RECOGNIZED_TYPES_def)
  then show ?thesis by (simp add: parsed_type_def string_field_def)
qed

lemma permission_response_parses:
  assumes "msg_text env = JSON_stringify (object_literal
            [(''type'', Some (JString ''permission_response'')),
             (''requestId'', Some (JString requestId)),
             (''from'', Some (JString ''controller'')),
             (''approved'', Some (JBool approve)),
             (''timestamp'', Some (JString now))])"
  shows "parsed_type (parseMessage env) = ''permission_response''
       \<and> string_field ''requestId'' (parseMessage env) = Some requestId
       \<and> map_of (parseMessage env) ''approved'' = Some (JBool approve)"
proof -
  let ?obj = "[(''type'', JString ''permission_response''), (''requestId'', JString requestId),
      (''from'', JString ''controller''), (''approved'', JBool approve),
      (''timestamp'', JString now)]"
  have t: "msg_text env = JSON_stringify ?obj"
    using assms by (simp add: object_literal_def map_filter_simps)
  have "parseMessage env = ?obj"
    by (rule parseMessage_stringify [OF t, where t = "''permission_response''"])
       (simp_all add: RECOGNIZED_TYPES_def)
  then show ?thesis by (simp add: parsed_type_def string_field_def)
qed

lemma resolveApproval_removes:
  "map_of (approvals (resolveApproval requestId t)) requestId = None"
  "requestId \<notin> fst ` set (approvals t) \<Longrightarrow> resolveApproval requestId t = t"
  by (simp_all add: resolveApproval_def delete_conv')

text \<open>
  Claim C10. With an active session on an initialized controller and a body that carries
  a (non-empty) \<open>requestId\<close> and no \<open>approve\<close> field, the approve-plan route and the
  approve-permission route answer 200 and append one envelope to the agent's mailbox; the
  envelope classifies as the plan or permission response with that \<open>requestId\<close> and
  \<open>approved = true\<close>. The tracker afterwards has no approval under that \<open>requestId\<close>; if
  it had none before, it is unchanged, and the request succeeds all the same.
\<close>

theorem approve_defaults_to_true:
  assumes "controller state = Some ctrl" "initialized ctrl" "requestId \<noteq> []"
  shows "(\<exists>ctrl' env.
            post_agent_approve_plan now name
              \<lparr>pb_requestId = Some requestId, pb_approve = None, pb_feedback = feedback\<rparr> state
              = (Inr \<lparr>status = 200, json = ok_body\<rparr>,
                 state\<lparr>controller := Some ctrl',
                       tracker := resolveApproval requestId (tracker state)\<rparr>)
          \<and> inboxes ctrl' = (inboxes ctrl)((teamName ctrl, name) :=
                               inboxes ctrl (teamName ctrl, name) @ [env])
          \<and> parsed_type (parseMessage env) = ''plan_approval_response''
          \<and> string_field ''requestId'' (parseMessage env) = Some requestId
          \<and> map_of (parseMessage env) ''approved'' = Some (JBool True))
       \<and> (\<exists>ctrl' env.
            post_agent_approve_permission now name
              \<lparr>qb_requestId = Some requestId, qb_approve = None\<rparr> state
              = (Inr \<lparr>status = 200, json = ok_body\<rparr>,
                 state\<lparr>controller := Some ctrl',
                       tracker := resolveApproval requestId (tracker state)\<rparr>)
          \<and> inboxes ctrl' = (inboxes ctrl)((teamName ctrl, name) :=
                               inboxes ctrl (teamName ctrl, name) @ [env])
          \<and> parsed_type (parseMessage env) = ''permission_response''
          \<and> string_field ''requestId'' (parseMessage env) = Some requestId
          \<and> map_of (parseMessage env) ''approved'' = Some (JBool True))
       \<and> map_of (approvals (resolveApproval requestId (tracker state))) requestId = None
       \<and> (requestId \<notin> fst ` set (approvals (tracker state)) \<longrightarrow>
            resolveApproval requestId (tracker state) = tracker state)"
proof -
  define env1 where "env1 = \<lparr>msg_from = ''controller'',
    msg_text = JSON_stringify (object_literal
            [(''type'', Some (JString ''plan_approval_response'')),
             (''requestId'', Some (JString requestId)),
             (''from'', Some (JString ''controller'')),
             (''approved'', Some (JBool True)),
             (''feedback'', map_option JString feedback),
             (''timestamp'', Some (JString now))]),
    msg_timestamp = now, msg_summary = None\<rparr>"
  define env2 where "env2 = \<lparr>msg_from = ''controller'',
    msg_text = JSON_stringify (object_literal
            [(''type'', Some (JString ''permission_response'')),
             (''requestId'', Some (JString requestId)),
             (''from'', Some (JString ''controller'')),
             (''approved'', Some (JBool True)),
             (''timestamp'', Some (JString now))]),
    msg_timestamp = now, msg_summary = None\<rparr>"
  define c1 where "c1 = ctrl\<lparr>inboxes := writeInbox (teamName ctrl) name env1 (inboxes ctrl)\<rparr>"
  define c2 where "c2 = ctrl\<lparr>inboxes := writeInbox (teamName ctrl) name env2 (inboxes ctrl)\<rparr>"
  have r1: "post_agent_approve_plan now name
              \<lparr>pb_requestId = Some requestId, pb_approve = None, pb_feedback = feedback\<rparr> state
              = (Inr \<lparr>status = 200, json = ok_body\<rparr>,
                 state\<lparr>controller := Some c1,
                       tracker := resolveApproval requestId (tracker state)\<rparr>)"
    using assms
    by (simp add: post_agent_approve_plan_def getController_def nonempty_def
        sendPlanApproval_def send_def ensureInitialized_def c1_def env1_def)
  have r2: "post_agent_approve_permission now name
              \<lparr>qb_requestId = Some requestId, qb_approve = None\<rparr> state
              = (Inr \<lparr>status = 200, json = ok_body\<rparr>,
                 state\<lparr>controller := Some c2,
                       tracker := resolveApproval requestId (tracker state)\<rparr>)"
    using assms
    by (simp add: post_agent_approve_permission_def getController_def nonempty_def
        sendPermissionResponse_def send_def ensureInitialized_def c2_def env2_def)
  have b1: "inboxes c1 = (inboxes ctrl)((teamName ctrl, name) :=
                               inboxes ctrl (teamName ctrl, name) @ [env1])"
    and b2: "inboxes c2 = (inboxes ctrl)((teamName ctrl, name) :=
                               inboxes ctrl (teamName ctrl, name) @ [env2])"
    by (simp_all add: c1_def c2_def writeInbox_def)
  have p1: "parsed_type (parseMessage env1) = ''plan_approval_response''
       \<and> string_field ''requestId'' (parseMessage env1) = Some requestId
       \<and> map_of (parseMessage env1) ''approved'' = Some (JBool True)"
    by (rule plan_response_parses [where now = now and feedback = feedback])
       (simp add: env1_def)
  have p2: "parsed_type (parseMessage env2) = ''permission_response''
       \<and> string_field ''requestId'' (parseMessage env2) = Some requestId
       \<and> map_of (parseMessage env2) ''approved'' = Some (JBool True)"
    by (rule permission_response_parses [where now = now]) (simp add: env2_def)
  from r1 b1 p1 have A: "\<exists>ctrl' env.
            post_agent_approve_plan now name
              \<lparr>pb_requestId = Some requestId, pb_approve = None, pb_feedback = feedback\<rparr> state
              = (Inr \<lparr>status = 200, json = ok_body\<rparr>,
                 state\<lparr>controller := Some ctrl',
                       tracker := resolveApproval requestId (tracker state)\<rparr>)
          \<and> inboxes ctrl' = (inboxes ctrl)((teamName ctrl, name) :=
                               inboxes ctrl (teamName ctrl, name) @ [env])
          \<and> parsed_type (parseMessage env) = ''plan_approval_response''
          \<and> string_field ''requestId'' (parseMessage env) = Some requestId
          \<and> map_of (parseMessage env) ''approved'' = Some (JBool True)"
    by blast
  from r2 b2 p2 have B: "\<exists>ctrl' env.
            post_agent_approve_permission now name
              \<lparr>qb_requestId = Some requestId, qb_approve = None\<rparr> state
              = (Inr \<lparr>status = 200, json = ok_body\<rparr>,
                 state\<lparr>controller := Some ctrl',
                       tracker := resolveApproval requestId (tracker state)\<rparr>)
          \<and> inboxes ctrl' = (inboxes ctrl)((teamName ctrl, name) :=
                               inboxes ctrl (teamName ctrl, name) @ [env])
          \<and> parsed_type (parseMessage env) = ''permission_response''
          \<and> string_field ''requestId'' (parseMessage env) = Some requestId
          \<and> map_of (parseMessage env) ''approved'' = Some (JBool True)"
    by blast
  have C: "map_of (approvals (resolveApproval requestId (tracker state))) requestId = None"
    by (rule resolveApproval_removes)
  have D: "requestId \<notin> fst ` set (approvals (tracker state)) \<longrightarrow>
            resolveApproval requestId (tracker state) = tracker state"
    by (simp add: resolveApproval_removes)
  show ?thesis by (intro conjI A B C D)
qed

theorem approve_defaults_to_true_witness:
  "controller example_state = Some example_controller \<and> initialized example_controller
   \<and> (\<exists>ctrl' env.
         post_agent_approve_plan ''2026-01-01T00:00:00.000Z'' ''coder''
           \<lparr>pb_requestId = Some ''plan-xyz'', pb_approve = None, pb_feedback = None\<rparr> example_state
           = (Inr \<lparr>status = 200, json = ok_body\<rparr>, example_state\<lparr>controller := Some ctrl'\<rparr>)
       \<and> readInbox ''my-team_01'' ''coder'' (inboxes ctrl') = [env]
       \<and> map_of (parseMessage env) ''approved'' = Some (JBool True))"
proof -
  have c: "controller example_state = Some example_controller"
    by (simp add: example_state_def)
  have t: "resolveApproval ''plan-xyz'' (tracker example_state) = tracker example_state"
    by (simp add: example_state_def new_ActionTracker_def resolveApproval_def)
  have n: "''plan-xyz'' \<noteq> []" by simp
  from approve_defaults_to_true [OF c example_controller_simps(2) n,
      where now = "''2026-01-01T00:00:00.000Z''" and name = "''coder''" and feedback = None]
  obtain ctrl' env where
    "post_agent_approve_plan ''2026-01-01T00:00:00.000Z'' ''coder''
           \<lparr>pb_requestId = Some ''plan-xyz'', pb_approve = None, pb_feedback = None\<rparr> example_state
           = (Inr \<lparr>status = 200, json = ok_body\<rparr>,
              example_state\<lparr>controller := Some ctrl',
                tracker := resolveApproval ''plan-xyz'' (tracker example_state)\<rparr>)"
    "inboxes ctrl' = (inboxes example_controller)((teamName example_controller, ''coder'') :=
        inboxes example_controller (teamName example_controller, ''coder'') @ [env])"
    "map_of (parseMessage env) ''approved'' = Some (JBool True)"
    by blast
  then have "post_agent_approve_plan ''2026-01-01T00:00:00.000Z'' ''coder''
           \<lparr>pb_requestId = Some ''plan-xyz'', pb_approve = None, pb_feedback = None\<rparr> example_state
           = (Inr \<lparr>status = 200, json = ok_body\<rparr>, example_state\<lparr>controller := Some ctrl'\<rparr>)
       \<and> readInbox ''my-team_01'' ''coder'' (inboxes ctrl') = [env]
       \<and> map_of (parseMessage env) ''approved'' = Some (JBool True)"
    by (simp add: t readInbox_def example_controller_simps)
  with c example_controller_simps(2) show ?thesis by blast
qed

subsection \<open>Validation of names\<close>

text \<open>The routes that take the agent name or the task id from the path hand it to the
  controller as it is: whatever the name, a message is written to the mailbox under that
  name, and a task lookup never answers with a validation error.\<close>

lemma post_agent_messages_any_name:
  assumes "controller state = Some ctrl" "initialized ctrl" "text \<noteq> []"
  shows "onError (post_agent_messages now name \<lparr>mb_message = Some text, mb_summary = summary\<rparr> state)
       = (\<lparr>status = 200, json = ok_body\<rparr>,
          state\<lparr>controller := Some (ctrl\<lparr>inboxes := writeInbox (teamName ctrl) name
             \<lparr>msg_from = ''controller'', msg_text = text, msg_timestamp = now,
              msg_summary = summary\<rparr> (inboxes ctrl)\<rparr>)\<rparr>)"
  using assms
  by (simp add: post_agent_messages_def getController_def nonempty_def send_def
      ensureInitialized_def onError_def)

lemma get_task_status:
  assumes "controller state = Some ctrl"
  shows "status (fst (onError (get_task taskId state))) \<in> {200, 404}"
  using assms
  by (simp add: get_task_def getController_def onError_def task_not_found_def
      split: option.splits)

text \<open>
  Claim C1 does not hold of these routes. \<open>POST /agents\<close> rejects the name
  \<open>../controller\<close> with the validation error, status 400. \<open>POST /agents/:name/messages\<close>
  with the name \<open>../evil\<close>, which the same check rejects, answers 200 and has appended the
  message to the mailbox addressed \<open>../evil\<close>; \<open>POST /agents/:name/kill\<close> and the
  approve-plan route answer 200 for that name as well; \<open>GET /tasks/:id\<close> with the id
  \<open>../../etc/passwd\<close> has gone to the ledger with it and answers 404, not 400.
\<close>

theorem unsafe_names_pass_the_routes:
  "validateName ''../evil'' ''name''
     = Inl (ValidationError ''name must be 1-64 alphanumeric characters, hyphens, or underscores'')
   \<and> fst (onError (post_agents 0 None example_spawn_body example_state))
       = \<lparr>status = 400,
          json = error_body ''name must be 1-64 alphanumeric characters, hyphens, or underscores''\<rparr>
   \<and> fst (onError (post_agent_messages ''2026-01-01T00:00:00.000Z'' ''../evil''
              example_message_body example_state))
       = \<lparr>status = 200, json = ok_body\<rparr>
   \<and> state_inbox (snd (onError (post_agent_messages ''2026-01-01T00:00:00.000Z'' ''../evil''
              example_message_body example_state))) ''../evil''
       = [\<lparr>msg_from = ''controller'', msg_text = ''hi'',
           msg_timestamp = ''2026-01-01T00:00:00.000Z'', msg_summary = None\<rparr>]
   \<and> status (fst (onError (post_agent_kill ''../evil'' example_state))) = 200
   \<and> status (fst (onError (post_agent_approve_plan ''2026-01-01T00:00:00.000Z'' ''../evil''
              example_plan_body example_state))) = 200
   \<and> validateName ''../../etc/passwd'' ''task id''
       = Inl (ValidationError ''task id must be 1-64 alphanumeric characters, hyphens, or underscores'')
   \<and> status (fst (onError (get_task ''../../etc/passwd'' example_state))) = 404"
proof -
  have c: "controller example_state = Some example_controller"
    by (simp add: example_state_def)
  have v: "\<not> SAFE_NAME_RE_test ''../evil''" "\<not> SAFE_NAME_RE_test ''../controller''"
    "\<not> SAFE_NAME_RE_test ''../../etc/passwd''"
    by (simp_all add: SAFE_NAME_RE_test_def safe_char_def)
  have 1: "validateName ''../evil'' ''name''
     = Inl (ValidationError ''name must be 1-64 alphanumeric characters, hyphens, or underscores'')"
    using v by (simp add: validateName_def)
  have 2: "fst (onError (post_agents 0 None example_spawn_body example_state))
       = \<lparr>status = 400,
          json = error_body ''name must be 1-64 alphanumeric characters, hyphens, or underscores''\<rparr>"
    using v c
    by (simp add: post_agents_def getController_def example_spawn_body_def nonempty_def
        validateName_def onError_def)
  have m: "onError (post_agent_messages ''2026-01-01T00:00:00.000Z'' ''../evil''
              example_message_body example_state)
       = (\<lparr>status = 200, json = ok_body\<rparr>,
          example_state\<lparr>controller := Some (example_controller\<lparr>inboxes :=
             writeInbox (teamName example_controller) ''../evil''
               \<lparr>msg_from = ''controller'', msg_text = ''hi'',
                msg_timestamp = ''2026-01-01T00:00:00.000Z'', msg_summary = None\<rparr>
               (inboxes example_controller)\<rparr>)\<rparr>)"
    unfolding example_message_body_def
    by (rule post_agent_messages_any_name [OF c example_controller_simps(2)]) simp
  have 3: "fst (onError (post_agent_messages ''2026-01-01T00:00:00.000Z'' ''../evil''
              example_message_body example_state)) = \<lparr>status = 200, json = ok_body\<rparr>"
    by (simp add: m)
  have 4: "state_inbox (snd (onError (post_agent_messages ''2026-01-01T00:00:00.000Z'' ''../evil''
              example_message_body example_state))) ''../evil''
       = [\<lparr>msg_from = ''controller'', msg_text = ''hi'',
           msg_timestamp = ''2026-01-01T00:00:00.000Z'', msg_summary = None\<rparr>]"
    by (simp add: m state_inbox_def readInbox_def writeInbox_def example_controller_simps)
  have 5: "validateName ''../../etc/passwd'' ''task id''
       = Inl (ValidationError ''task id must be 1-64 alphanumeric characters, hyphens, or underscores'')"
    using v by (simp add: validateName_def)
  have 6: "status (fst (onError (get_task ''../../etc/passwd'' example_state))) = 404"
    using c
    by (simp add: get_task_def getController_def onError_def TaskManager_get_def
        example_controller_simps catch_null_def task_not_found_def)
  have 7: "status (fst (onError (post_agent_kill ''../evil'' example_state))) = 200"
    using c
    by (simp add: post_agent_kill_def getController_def onError_def killAgent_def Let_def
        TeamManager_removeMember_def example_controller_simps exit_events_def
        ProcessManager_kill_def)
  have 8: "status (fst (onError (post_agent_approve_plan ''2026-01-01T00:00:00.000Z'' ''../evil''
              example_plan_body example_state))) = 200"
    using c
    by (simp add: post_agent_approve_plan_def getController_def onError_def nonempty_def
        example_plan_body_def sendPlanApproval_def send_def ensureInitialized_def
        example_controller_simps)
  show ?thesis by (intro conjI 1 2 3 4 5 7 8 6)
qed


end
